theory Spec2Isabelle
  imports Complex_Main "HOL-Library.Sublist"
begin

section \<open>Data model (src/agent/models.py)\<close>

datatype IncidentSeverity = URGENT | NEEDS_ATTENTION | ALL_GOOD

datatype IncidentType =
  MISSING_FILE | DUPLICATED_FILE | UNEXPECTED_EMPTY | VOLUME_VARIATION | LATE_UPLOAD | PREVIOUS_FILE

text \<open>
  Python's \<open>datetime\<close>: a calendar date with a time of day. \<open>date\<close> is the same record
  with the time fields at zero.
\<close>

record datetime =
  year :: nat
  month :: nat
  day :: nat
  hour :: nat
  minute :: nat
  second :: nat
  microsecond :: nat

text \<open>
  The values the code stores in \<open>details\<close> and interpolates into its f-strings. Numbers
  (Python \<open>int\<close> and finite \<open>float\<close>) are rationals: the detectors only compare them, and
  Python compares \<open>int\<close> with \<open>float\<close> exactly. An f-string is kept as its list of pieces, so
  that the rendering of a number (\<open>str\<close> of a float) is not part of the model.
\<close>

datatype detail = Num rat | Str string | Flag bool | Stamp datetime

datatype piece = Lit string | Val detail

record Incident =
  incident_type :: IncidentType
  severity :: IncidentSeverity
  description :: "piece list"
  recommendation :: "piece list"
  source_id :: string
  file_name :: "string option"
  details :: "(string \<times> detail) list"

record SourceReport =
  report_source_id :: string
  report_status :: IncidentSeverity
  incidents :: "Incident list"
  processed_files_count :: int
  total_rows :: int

datatype error = KeyError string | ValueError | OverflowError | IndexError

record FileMetadata =
  filename :: string
  rows :: int
  status :: string
  is_duplicated :: bool
  file_size :: "rat option"
  uploaded_at :: string
  status_message :: "string option"

text \<open>
  A Python \<open>dict\<close> with string keys is an association list in insertion order (a dict is
  such a list with distinct keys): \<open>d.get(k)\<close> is \<open>map_of d k\<close>, \<open>d.keys()\<close> is
  \<open>map fst d\<close>, and the empty dict, the only falsy one, is \<open>[]\<close>.
  A table of statistics maps a label to a number; an upload window maps \<open>start\<close> and
  \<open>end\<close> to a time-of-day string or to \<open>None\<close>.
\<close>

type_synonym stats = "(string \<times> rat) list"

type_synonym window = "(string \<times> string option) list"

record SourceCV =
  cv_source_id :: string
  expected_files_by_day :: "(string \<times> stats) list"
  upload_window_by_day :: "(string \<times> window) list"
  filename_patterns :: "string list"
  entity_stats :: "(string \<times> (string \<times> stats) list) list"
  empty_file_stats :: "(string \<times> stats) list"

section \<open>Library operations the detectors use\<close>

text \<open>\<open>d.get(k, default)\<close>.\<close>

definition get :: "(string \<times> 'a) list \<Rightarrow> string \<Rightarrow> 'a \<Rightarrow> 'a" where
  "get d k dflt = (case map_of d k of None \<Rightarrow> dflt | Some v \<Rightarrow> v)"

text \<open>\<open>s.startswith(p)\<close> and the substring test \<open>sub in s\<close>.\<close>

fun startswith :: "string \<Rightarrow> string \<Rightarrow> bool" where
  "startswith s [] = True"
| "startswith [] (p # ps) = False"
| "startswith (c # cs) (p # ps) = (c = p \<and> startswith cs ps)"

fun contains :: "string \<Rightarrow> string \<Rightarrow> bool" where
  "contains [] sub = (sub = [])"
| "contains (c # cs) sub = (startswith (c # cs) sub \<or> contains cs sub)"

subsection \<open>Calendar arithmetic of \<open>datetime\<close>\<close>

text \<open>
  The proleptic Gregorian ordinal of Python's \<open>datetime\<close> module (\<open>_ymd2ord\<close>): day 1 is
  0001-01-01. \<open>weekday()\<close> is \<open>(toordinal() + 6) % 7\<close> with Monday as 0, and
  \<open>strftime\<close> with \<open>%a\<close> and \<open>%A\<close> gives the abbreviated and the full English day name
  (the C locale, which the program never changes).
\<close>

definition is_leap :: "nat \<Rightarrow> bool" where
  "is_leap y = (y mod 4 = 0 \<and> (y mod 100 \<noteq> 0 \<or> y mod 400 = 0))"

definition days_before_year :: "nat \<Rightarrow> int" where
  "days_before_year y =
     (let y1 = int y - 1 in y1 * 365 + y1 div 4 - y1 div 100 + y1 div 400)"

definition days_in_month :: "nat \<Rightarrow> nat \<Rightarrow> nat" where
  "days_in_month y m =
     (if m = 2 \<and> is_leap y then 29
      else [31, 28, 31, 30, 31, 30, 31, 31, 30, 31, 30, 31] ! (m - 1))"

definition days_before_month :: "nat \<Rightarrow> nat \<Rightarrow> int" where
  "days_before_month y m =
     [0, 31, 59, 90, 120, 151, 181, 212, 243, 273, 304, 334] ! (m - 1)
       + (if m > 2 \<and> is_leap y then 1 else 0)"

definition ymd2ord :: "nat \<Rightarrow> nat \<Rightarrow> nat \<Rightarrow> int" where
  "ymd2ord y m d = days_before_year y + days_before_month y m + int d"

definition toordinal :: "datetime \<Rightarrow> int" where
  "toordinal dt = ymd2ord (year dt) (month dt) (day dt)"

definition weekday :: "datetime \<Rightarrow> nat" where
  "weekday dt = nat ((toordinal dt + 6) mod 7)"

definition strftime_a :: "datetime \<Rightarrow> string" where
  "strftime_a dt = [''Mon'', ''Tue'', ''Wed'', ''Thu'', ''Fri'', ''Sat'', ''Sun''] ! weekday dt"

definition strftime_A :: "datetime \<Rightarrow> string" where
  "strftime_A dt =
     [''Monday'', ''Tuesday'', ''Wednesday'', ''Thursday'', ''Friday'', ''Saturday'', ''Sunday'']
       ! weekday dt"

text \<open>
  What the \<open>datetime\<close> constructor accepts: year 1 to 9999, a day that exists in its month,
  a time of day below 24:00:00.
\<close>

definition valid_date :: "nat \<Rightarrow> nat \<Rightarrow> nat \<Rightarrow> bool" where
  "valid_date y m d =
     (1 \<le> y \<and> y \<le> 9999 \<and> 1 \<le> m \<and> m \<le> 12 \<and> 1 \<le> d \<and> d \<le> days_in_month y m)"

definition valid_datetime :: "datetime \<Rightarrow> bool" where
  "valid_datetime dt =
     (valid_date (year dt) (month dt) (day dt) \<and> hour dt < 24 \<and> minute dt < 60 \<and>
      second dt < 60 \<and> microsecond dt < 1000000)"

definition mk_date :: "nat \<Rightarrow> nat \<Rightarrow> nat \<Rightarrow> datetime" where
  "mk_date y m d =
     \<lparr>year = y, month = m, day = d, hour = 0, minute = 0, second = 0, microsecond = 0\<rparr>"

subsection \<open>Digits, the filename pattern and \<open>strptime\<close>\<close>

text \<open>
  Characters are Python's code points below 256; among them \<open>\d\<close> matches the ten ASCII
  digits only.
\<close>

definition is_digit :: "char \<Rightarrow> bool" where
  "is_digit c = (c \<in> set ''0123456789'')"

definition digit_val :: "char \<Rightarrow> nat" where
  "digit_val c = of_char c - 48"

definition int_of_digits :: "string \<Rightarrow> nat" where
  "int_of_digits ds = foldl (\<lambda>n c. 10 * n + digit_val c) 0 ds"

text \<open>
  \<open>re.search(r'_(\d{8})\.csv$', name)\<close>, returning group 1. Without \<open>re.MULTILINE\<close>,
  \<open>$\<close> matches at the end of the string and also just before a newline that is the last
  character of the string; so the pattern is looked for at the end of the name, after
  dropping one final newline if there is one.
\<close>

definition search_date_suffix :: "string \<Rightarrow> string option" where
  "search_date_suffix name =
     (let s = (if name \<noteq> [] \<and> last name = CHR 0x0A then butlast name else name);
          n = length s
      in if 13 \<le> n \<and> s ! (n - 13) = CHR ''_'' \<and> list_all is_digit (take 8 (drop (n - 12) s)) \<and>
            drop (n - 4) s = ''.csv''
         then Some (take 8 (drop (n - 12) s)) else None)"

text \<open>
  \<open>datetime.strptime(s, "%Y%m%d")\<close> on a string of eight digits, the only strings the
  detector passes to it: the fields are the first four, the next two and the last two
  digits, and the call raises \<open>ValueError\<close> unless they form a date that exists.
\<close>

definition strptime_Ymd :: "string \<Rightarrow> error + datetime" where
  "strptime_Ymd s =
     (let y = int_of_digits (take 4 s); m = int_of_digits (take 2 (drop 4 s));
          d = int_of_digits (drop 6 s)
      in if valid_date y m d then Inr (mk_date y m d) else Inl ValueError)"

text \<open>\<open>s.split(c)\<close> for a separator of one character.\<close>

fun split_on :: "char \<Rightarrow> string \<Rightarrow> string list" where
  "split_on c [] = [[]]"
| "split_on c (x # xs) =
     (if x = c then [] # split_on c xs
      else (case split_on c xs of [] \<Rightarrow> [[x]] | w # ws \<Rightarrow> (x # w) # ws))"

text \<open>
  \<open>datetime.strptime(s, "%H:%M:%S").time()\<close>: three fields of one or two digits
  separated by colons and nothing else; the hour is at most 23 and the minute at most 59;
  the format lets the second reach 61, and the constructor then refuses a second above 59.
  The result is hour, minute and second.
\<close>

definition time_field :: "nat \<Rightarrow> string \<Rightarrow> nat option" where
  "time_field bound s =
     (if (length s = 1 \<or> length s = 2) \<and> list_all is_digit s \<and> int_of_digits s \<le> bound
      then Some (int_of_digits s) else None)"

definition strptime_HMS :: "string \<Rightarrow> error + (nat \<times> nat \<times> nat)" where
  "strptime_HMS s =
     (case split_on CHR '':'' s of
        [h, m, sec] \<Rightarrow>
          (case (time_field 23 h, time_field 59 m, time_field 61 sec) of
             (Some H, Some M, Some S) \<Rightarrow> if S \<le> 59 then Inr (H, M, S) else Inl ValueError
           | _ \<Rightarrow> Inl ValueError)
      | _ \<Rightarrow> Inl ValueError)"

text \<open>\<open>datetime.combine(current_date.date(), end_time)\<close>.\<close>

definition combine :: "datetime \<Rightarrow> nat \<times> nat \<times> nat \<Rightarrow> datetime" where
  "combine dt t =
     (case t of (H, M, S) \<Rightarrow>
        \<lparr>year = year dt, month = month dt, day = day dt, hour = H, minute = M, second = S,
         microsecond = 0\<rparr>)"

text \<open>
  Python compares two dates, and two naive datetimes, field by field.
\<close>

definition date_less :: "datetime \<Rightarrow> datetime \<Rightarrow> bool" where
  "date_less a b =
     (year a < year b \<or> (year a = year b \<and>
        (month a < month b \<or> (month a = month b \<and> day a < day b))))"

definition datetime_less :: "datetime \<Rightarrow> datetime \<Rightarrow> bool" where
  "datetime_less a b =
     (date_less a b \<or> (year a = year b \<and> month a = month b \<and> day a = day b \<and>
        (hour a < hour b \<or> (hour a = hour b \<and>
          (minute a < minute b \<or> (minute a = minute b \<and>
            (second a < second b \<or> (second a = second b \<and> microsecond a < microsecond b))))))))"

text \<open>
  The detectors compare a date or datetime with one moved by a \<open>timedelta\<close>. The model
  does both through the ordinal of the day and the number of microseconds since the start
  of day 0, which order the dates and datetimes that exist as the field-by-field comparison
  does. The last representable day is 9999-12-31, of ordinal 3652059; a sum beyond it
  raises \<open>OverflowError\<close>.
\<close>

definition total_microseconds :: "datetime \<Rightarrow> int" where
  "total_microseconds dt =
     toordinal dt * 86400000000 +
     ((int (hour dt) * 60 + int (minute dt)) * 60 + int (second dt)) * 1000000 +
     int (microsecond dt)"

definition max_microseconds :: int where
  "max_microseconds = (3652059 + 1) * 86400000000 - 1"

definition plus_hours :: "datetime \<Rightarrow> int \<Rightarrow> error + int" where
  "plus_hours dt h =
     (let t = total_microseconds dt + h * 3600000000
      in if t > max_microseconds then Inl OverflowError else Inr t)"

text \<open>
  \<open>datetime.fromisoformat\<close> returns a datetime and, when the string carries an offset, the
  offset (here in minutes); which strings it accepts depends on the version of Python. The
  detector below therefore takes the function as an argument. \<open>fromisoformat_T\<close> is that
  function on the strings of the shape the source documents,
  \<open>YYYY-MM-DDTHH:MM:SS\<close> with an optional fraction of six digits and an optional offset
  \<open>+HH:MM\<close> or \<open>-HH:MM\<close>; it rejects every other string.
\<close>

definition digits_at :: "string \<Rightarrow> nat \<Rightarrow> nat \<Rightarrow> nat option" where
  "digits_at s i n =
     (let w = take n (drop i s)
      in if length w = n \<and> list_all is_digit w then Some (int_of_digits w) else None)"

definition iso_offset :: "string \<Rightarrow> (int option) option" where
  "iso_offset z =
     (if z = [] then Some None
      else if length z = 6 \<and> (z ! 0 = CHR ''+'' \<or> z ! 0 = CHR ''-'') \<and> z ! 3 = CHR '':'' then
        (case (digits_at z 1 2, digits_at z 4 2) of
           (Some h, Some m) \<Rightarrow>
             if h < 24 \<and> m < 60
             then Some (Some ((if z ! 0 = CHR ''-'' then - 1 else 1) * (int h * 60 + int m)))
             else None
         | _ \<Rightarrow> None)
      else None)"

definition fromisoformat_T :: "string \<Rightarrow> error + (datetime \<times> int option)" where
  "fromisoformat_T s =
     (if length s \<ge> 19 \<and> s ! 4 = CHR ''-'' \<and> s ! 7 = CHR ''-'' \<and> s ! 10 = CHR ''T'' \<and>
         s ! 13 = CHR '':'' \<and> s ! 16 = CHR '':'' then
        (case (digits_at s 0 4, digits_at s 5 2, digits_at s 8 2, digits_at s 11 2,
               digits_at s 14 2, digits_at s 17 2) of
           (Some y, Some mo, Some d, Some h, Some mi, Some sec) \<Rightarrow>
             (let rest = drop 19 s;
                  frac = (if rest \<noteq> [] \<and> hd rest = CHR ''.'' then digits_at rest 1 6 else Some 0);
                  zone = (if rest \<noteq> [] \<and> hd rest = CHR ''.'' then drop 7 rest else rest)
              in case (frac, iso_offset zone) of
                   (Some us, Some off) \<Rightarrow>
                     (let dt = \<lparr>year = y, month = mo, day = d, hour = h, minute = mi,
                                second = sec, microsecond = us\<rparr>
                      in if valid_datetime dt then Inr (dt, off) else Inl ValueError)
                 | _ \<Rightarrow> Inl ValueError)
         | _ \<Rightarrow> Inl ValueError)
      else Inl ValueError)"


section \<open>Detectors (src/agent/detectors.py)\<close>

text \<open>
  The entity a file is attributed to: the first key \<open>e\<close> of \<open>cv.entity_stats\<close>, in
  iteration order, with \<open>_e_\<close> a substring of the filename (the inner \<open>for ... break\<close>).
\<close>

definition entity_of :: "SourceCV \<Rightarrow> FileMetadata \<Rightarrow> string option" where
  "entity_of cv f =
     find (\<lambda>entity. contains (filename f) (''_'' @ entity @ ''_'')) (map fst (entity_stats cv))"

subsection \<open>MissingFileDetector\<close>

definition file_count_incident :: "SourceCV \<Rightarrow> rat \<Rightarrow> rat \<Rightarrow> rat \<Rightarrow> nat \<Rightarrow> Incident" where
  "file_count_incident cv threshold min_files mean_files found =
     \<lparr>incident_type = MISSING_FILE, severity = URGENT,
      description = [Lit ''Expected at least '', Val (Num threshold), Lit '' files (mean '',
                     Val (Num mean_files), Lit ''), but found '', Val (Num (of_nat found)), Lit ''.''],
      recommendation = [Lit ''Contact provider to confirm generation and request immediate re-delivery.''],
      source_id = cv_source_id cv, file_name = None,
      details = [(''expected_min'', Num threshold), (''found'', Num (of_nat found)),
                 (''cv_min'', Num min_files), (''cv_mean'', Num mean_files)]\<rparr>"

definition missing_entity_incident :: "SourceCV \<Rightarrow> string \<Rightarrow> Incident" where
  "missing_entity_incident cv entity =
     \<lparr>incident_type = MISSING_FILE, severity = URGENT,
      description = [Lit (''Expected files for entity '' @ [CHR 0x27]), Val (Str entity),
                     Lit ([CHR 0x27] @ '' but none received.'')],
      recommendation = [Lit (''Verify if '' @ [CHR 0x27]), Val (Str entity),
                        Lit ([CHR 0x27] @ '' generated files today and request re-delivery.'')],
      source_id = cv_source_id cv, file_name = None,
      details = [(''entity'', Str entity)]\<rparr>"

text \<open>
  The loop over \<open>cv.entity_stats.items()\<close>. \<open>day_stats["median_files"]\<close> raises
  \<open>KeyError\<close> on a non-empty day entry without that key, and nothing catches it.
\<close>

fun missing_entities ::
  "SourceCV \<Rightarrow> string \<Rightarrow> string list \<Rightarrow> (string \<times> (string \<times> stats) list) list \<Rightarrow> error + Incident list"
where
  "missing_entities cv day_full present_entities [] = Inr []"
| "missing_entities cv day_full present_entities ((entity, st) # rest) =
     (case map_of st day_full of
        None \<Rightarrow> missing_entities cv day_full present_entities rest
      | Some day_stats \<Rightarrow>
          if day_stats = [] then missing_entities cv day_full present_entities rest
          else (case map_of day_stats ''median_files'' of
                  None \<Rightarrow> Inl (KeyError ''median_files'')
                | Some median_files \<Rightarrow>
                    (case missing_entities cv day_full present_entities rest of
                       Inl e \<Rightarrow> Inl e
                     | Inr incs \<Rightarrow>
                         Inr ((if median_files > 0 \<and> entity \<notin> set present_entities
                               then [missing_entity_incident cv entity] else []) @ incs))))"

definition MissingFileDetector_detect ::
  "FileMetadata list \<Rightarrow> SourceCV \<Rightarrow> datetime \<Rightarrow> error + Incident list"
where
  "MissingFileDetector_detect files cv current_date =
     (let day_name = strftime_a current_date in
      case map_of (expected_files_by_day cv) day_name of
        None \<Rightarrow> Inr []
      | Some expected_stats \<Rightarrow>
          if expected_stats = [] then Inr []
          else
           (let min_files = get expected_stats ''min'' 0;
                mean_files = get expected_stats ''mean'' 0;
                median_files = get expected_stats ''median'' 0;
                mode_files = get expected_stats ''mode'' 0;
                threshold =
                  (if min_files = 0 then (if median_files > 0 \<or> mode_files > 0 then 1 else 0)
                   else min_files);
                count_incidents =
                  (if of_nat (length files) < threshold
                   then [file_count_incident cv threshold min_files mean_files (length files)]
                   else []);
                present_entities = List.map_filter (entity_of cv) files
            in case missing_entities cv (strftime_A current_date) present_entities (entity_stats cv) of
                 Inl e \<Rightarrow> Inl e
               | Inr incs \<Rightarrow> Inr (count_incidents @ incs)))"

subsection \<open>DuplicatedFailedFileDetector\<close>

definition duplicated_or_failed_incident :: "SourceCV \<Rightarrow> FileMetadata \<Rightarrow> Incident" where
  "duplicated_or_failed_incident cv f =
     \<lparr>incident_type = DUPLICATED_FILE, severity = URGENT,
      description = [Lit ''File '', Val (Str (filename f)), Lit '' is duplicated or failed.''],
      recommendation = [Lit ''Check file status and re-process if needed.''],
      source_id = cv_source_id cv, file_name = Some (filename f),
      details = [(''status'', Str (status f)), (''is_duplicated'', Flag (is_duplicated f))]\<rparr>"

definition duplicate_name_incident :: "SourceCV \<Rightarrow> FileMetadata \<Rightarrow> Incident" where
  "duplicate_name_incident cv f =
     \<lparr>incident_type = DUPLICATED_FILE, severity = URGENT,
      description = [Lit ''File '', Val (Str (filename f)), Lit '' has a duplicate name.''],
      recommendation = [Lit ''Check for duplicate uploads.''],
      source_id = cv_source_id cv, file_name = Some (filename f),
      details = []\<rparr>"

text \<open>The loop over the files, with the set \<open>seen_filenames\<close> as it stands before each file.\<close>

fun duplicated_failed_loop :: "SourceCV \<Rightarrow> string set \<Rightarrow> FileMetadata list \<Rightarrow> Incident list" where
  "duplicated_failed_loop cv seen_filenames [] = []"
| "duplicated_failed_loop cv seen_filenames (f # fs) =
     (if is_duplicated f \<or> status f = ''STOPPED'' \<or> status f = ''failed''
      then [duplicated_or_failed_incident cv f] else [])
     @ (if filename f \<in> seen_filenames then [duplicate_name_incident cv f] else [])
     @ duplicated_failed_loop cv (insert (filename f) seen_filenames) fs"

definition DuplicatedFailedFileDetector_detect ::
  "FileMetadata list \<Rightarrow> SourceCV \<Rightarrow> datetime \<Rightarrow> Incident list"
where
  "DuplicatedFailedFileDetector_detect files cv current_date = duplicated_failed_loop cv {} files"

subsection \<open>UnexpectedEmptyFileDetector\<close>

definition unexpected_empty_incident :: "SourceCV \<Rightarrow> rat \<Rightarrow> FileMetadata \<Rightarrow> Incident" where
  "unexpected_empty_incident cv max_empty f =
     \<lparr>incident_type = UNEXPECTED_EMPTY, severity = URGENT,
      description = [Lit ''File '', Val (Str (filename f)), Lit '' is empty (0 rows).''],
      recommendation = [Lit ''Verify if the empty file is expected.''],
      source_id = cv_source_id cv, file_name = Some (filename f),
      details = [(''rows'', Num (of_int (rows f))), (''max_expected_empty'', Num max_empty)]\<rparr>"

fun unexpected_empty_loop :: "SourceCV \<Rightarrow> rat \<Rightarrow> FileMetadata list \<Rightarrow> Incident list" where
  "unexpected_empty_loop cv max_empty [] = []"
| "unexpected_empty_loop cv max_empty (f # fs) =
     (if rows f = 0
      then (if max_empty > 0 then unexpected_empty_loop cv max_empty fs
            else unexpected_empty_incident cv max_empty f # unexpected_empty_loop cv max_empty fs)
      else unexpected_empty_loop cv max_empty fs)"

definition UnexpectedEmptyFileDetector_detect ::
  "FileMetadata list \<Rightarrow> SourceCV \<Rightarrow> datetime \<Rightarrow> Incident list"
where
  "UnexpectedEmptyFileDetector_detect files cv current_date =
     (let day_name = strftime_a current_date;
          empty_stats = get (empty_file_stats cv) day_name [];
          max_empty = get empty_stats ''max'' 0;
          empty_files_count = length (filter (\<lambda>f. rows f = 0) files)
      in unexpected_empty_loop cv max_empty files)"

subsection \<open>UnexpectedVolumeVariationDetector\<close>

text \<open>
  The products \<open>max_files * 1.5\<close>, \<open>median_rows * 3\<close> and \<open>median_rows * 0.1\<close> are
  products of doubles in the source and of rationals here; the two can differ only where
  the double product is rounded.
\<close>

definition surge_incident :: "SourceCV \<Rightarrow> nat \<Rightarrow> rat \<Rightarrow> Incident" where
  "surge_incident cv total_files max_files =
     \<lparr>incident_type = VOLUME_VARIATION, severity = NEEDS_ATTENTION,
      description = [Lit ''Total files ('', Val (Num (of_nat total_files)),
                     Lit '') significantly higher than expected max ('', Val (Num max_files), Lit '').''],
      recommendation = [Lit ''Investigate the surge in files.''],
      source_id = cv_source_id cv, file_name = None,
      details = [(''total_files'', Num (of_nat total_files)), (''expected_max'', Num max_files)]\<rparr>"

definition row_deviation_incident :: "SourceCV \<Rightarrow> FileMetadata \<Rightarrow> rat \<Rightarrow> Incident" where
  "row_deviation_incident cv f median_rows =
     \<lparr>incident_type = VOLUME_VARIATION, severity = NEEDS_ATTENTION,
      description = [Lit ''File '', Val (Str (filename f)), Lit '' has '', Val (Num (of_int (rows f))),
                     Lit '' rows, deviating from median '', Val (Num median_rows), Lit ''.''],
      recommendation = [Lit ''Check for data completeness or duplication.''],
      source_id = cv_source_id cv, file_name = Some (filename f),
      details = [(''rows'', Num (of_int (rows f))), (''median_rows'', Num median_rows)]\<rparr>"

text \<open>The body of the loop over the files; an entity named by the empty string is falsy.\<close>

definition row_check :: "SourceCV \<Rightarrow> datetime \<Rightarrow> FileMetadata \<Rightarrow> Incident list" where
  "row_check cv current_date f =
     (case entity_of cv f of
        None \<Rightarrow> []
      | Some entity \<Rightarrow>
          if entity = [] then []
          else (let day_full = strftime_A current_date in
                case map_of (get (entity_stats cv) entity []) day_full of
                  None \<Rightarrow> []
                | Some entity_day_stats \<Rightarrow>
                    if entity_day_stats = [] then []
                    else (let median_rows = get entity_day_stats ''median_rows'' 0 in
                          if median_rows > 0
                          then (if of_int (rows f) > median_rows * 3 \<or>
                                   of_int (rows f) < median_rows * (1 / 10)
                                then [row_deviation_incident cv f median_rows] else [])
                          else [])))"

definition UnexpectedVolumeVariationDetector_detect ::
  "FileMetadata list \<Rightarrow> SourceCV \<Rightarrow> datetime \<Rightarrow> Incident list"
where
  "UnexpectedVolumeVariationDetector_detect files cv current_date =
     (let day_name = strftime_a current_date in
      case map_of (expected_files_by_day cv) day_name of
        None \<Rightarrow> []
      | Some stats \<Rightarrow>
          if stats = [] then []
          else (let total_files = length files;
                    mean_files = get stats ''mean'' 0;
                    std_dev = get stats ''std_dev'' 0;
                    min_files = get stats ''min'' 0;
                    max_files = get stats ''max'' (0::rat)
                in (if of_nat total_files > max_files * (3 / 2) \<and> max_files > 0
                    then [surge_incident cv total_files max_files] else [])
                   @ concat (map (row_check cv current_date) files)))"

subsection \<open>PreviousFileDetector\<close>

definition previous_file_incident :: "SourceCV \<Rightarrow> FileMetadata \<Rightarrow> datetime \<Rightarrow> Incident" where
  "previous_file_incident cv f file_date =
     \<lparr>incident_type = PREVIOUS_FILE, severity = ALL_GOOD,
      description = [Lit ''File '', Val (Str (filename f)), Lit '' is from a previous period ('',
                     Val (Stamp file_date), Lit '').''],
      recommendation = [Lit ''No action needed, historical upload.''],
      source_id = cv_source_id cv, file_name = Some (filename f),
      details = [(''file_date'', Stamp file_date)]\<rparr>"

text \<open>
  The loop over the files. Dates are compared through their ordinals.
  \<open>current_date.date() - timedelta(days=2)\<close> raises \<open>OverflowError\<close> when it would fall
  before 0001-01-01; the handler catches \<open>ValueError\<close> only.
\<close>

fun previous_file_loop :: "SourceCV \<Rightarrow> datetime \<Rightarrow> FileMetadata list \<Rightarrow> error + Incident list" where
  "previous_file_loop cv current_date [] = Inr []"
| "previous_file_loop cv current_date (f # fs) =
     (case search_date_suffix (filename f) of
        None \<Rightarrow> previous_file_loop cv current_date fs
      | Some file_date_str \<Rightarrow>
          (case strptime_Ymd file_date_str of
             Inl ValueError \<Rightarrow> previous_file_loop cv current_date fs
           | Inl e \<Rightarrow> Inl e
           | Inr file_date \<Rightarrow>
               if toordinal current_date - 2 < 1 then Inl OverflowError
               else (case previous_file_loop cv current_date fs of
                       Inl e \<Rightarrow> Inl e
                     | Inr incs \<Rightarrow>
                         Inr ((if toordinal file_date < toordinal current_date - 2
                               then [previous_file_incident cv f file_date] else []) @ incs))))"

definition PreviousFileDetector_detect ::
  "FileMetadata list \<Rightarrow> SourceCV \<Rightarrow> datetime \<Rightarrow> error + Incident list"
where
  "PreviousFileDetector_detect files cv current_date = previous_file_loop cv current_date files"

subsection \<open>LateUploadDetector\<close>

definition late_upload_incident ::
  "SourceCV \<Rightarrow> FileMetadata \<Rightarrow> datetime \<Rightarrow> string \<Rightarrow> datetime \<Rightarrow> Incident"
where
  "late_upload_incident cv f uploaded end_time_str expected_end_dt =
     \<lparr>incident_type = LATE_UPLOAD, severity = NEEDS_ATTENTION,
      description = [Lit ''File '', Val (Str (filename f)), Lit '' uploaded at '', Val (Stamp uploaded),
                     Lit '', significantly after expected '', Val (Str end_time_str), Lit ''.''],
      recommendation = [Lit ''Monitor upload delays.''],
      source_id = cv_source_id cv, file_name = Some (filename f),
      details = [(''uploaded_at'', Stamp uploaded), (''expected_end'', Stamp expected_end_dt)]\<rparr>"

text \<open>
  The loop inside the \<open>try\<close>. A timestamp that does not parse raises inside the loop; the
  handler around the loop swallows the exception, and the detector returns the incidents
  gathered so far. An offset, when present, is dropped by \<open>replace(tzinfo=None)\<close>, which
  leaves the fields of the datetime as they are.
\<close>

fun late_upload_loop ::
  "(string \<Rightarrow> error + (datetime \<times> int option)) \<Rightarrow> SourceCV \<Rightarrow> string \<Rightarrow> datetime \<Rightarrow> int \<Rightarrow>
   FileMetadata list \<Rightarrow> Incident list"
where
  "late_upload_loop fromisoformat cv end_time_str expected_end_dt tolerance [] = []"
| "late_upload_loop fromisoformat cv end_time_str expected_end_dt tolerance (f # fs) =
     (case fromisoformat (uploaded_at f) of
        Inl e \<Rightarrow> []
      | Inr (parsed, tzinfo) \<Rightarrow>
          (let uploaded = (if tzinfo \<noteq> None then parsed else parsed) in
           (if total_microseconds uploaded > tolerance
            then [late_upload_incident cv f uploaded end_time_str expected_end_dt] else [])
           @ late_upload_loop fromisoformat cv end_time_str expected_end_dt tolerance fs))"

text \<open>
  \<open>window["end"]\<close> is read before the \<open>try\<close>: a non-empty window without that key raises
  \<open>KeyError\<close>. Inside the \<open>try\<close>, a window end that does not parse and a deadline beyond
  the last representable day leave the list empty.
\<close>

definition LateUploadDetector_detect ::
  "(string \<Rightarrow> error + (datetime \<times> int option)) \<Rightarrow> FileMetadata list \<Rightarrow> SourceCV \<Rightarrow> datetime \<Rightarrow>
   error + Incident list"
where
  "LateUploadDetector_detect fromisoformat files cv current_date =
     (let day_name = strftime_a current_date in
      case map_of (upload_window_by_day cv) day_name of
        None \<Rightarrow> Inr []
      | Some window \<Rightarrow>
          if window = [] then Inr []
          else (case map_of window ''end'' of
                  None \<Rightarrow> Inl (KeyError ''end'')
                | Some None \<Rightarrow> Inr []
                | Some (Some end_time_str) \<Rightarrow>
                    if end_time_str = [] then Inr []
                    else (case strptime_HMS end_time_str of
                            Inl e \<Rightarrow> Inr []
                          | Inr end_time \<Rightarrow>
                              (let expected_end_dt = combine current_date end_time in
                               case plus_hours expected_end_dt 4 of
                                 Inl e \<Rightarrow> Inr []
                               | Inr tolerance_dt \<Rightarrow>
                                   Inr (late_upload_loop fromisoformat cv end_time_str
                                          expected_end_dt tolerance_dt files)))))"


section \<open>Profile parser (src/agent/parsers.py)\<close>

text \<open>
  The document is the text \<open>f.read()\<close> returns. Its characters are the code points below
  256, so a document with a character beyond them (an en dash, a bullet) is outside the
  model.
\<close>

subsection \<open>String operations\<close>

text \<open>
  \<open>s.strip()\<close> removes the whitespace of \<open>str.isspace\<close> at both ends. \<open>s.isdigit()\<close>
  holds for a non-empty string of characters with the Unicode property Digit: below 256
  these are the ten ASCII digits and the superscripts two, three and one (\<open>0xB2\<close>,
  \<open>0xB3\<close>, \<open>0xB9\<close>). \<open>s.replace('.', '', 1)\<close> removes the first dot.
\<close>

definition isspace :: "char \<Rightarrow> bool" where
  "isspace c = (c \<in> set [CHR 0x09, CHR 0x0A, CHR 0x0B, CHR 0x0C, CHR 0x0D, CHR 0x1C, CHR 0x1D,
                           CHR 0x1E, CHR 0x1F, CHR 0x20, CHR 0x85, CHR 0xA0])"

definition strip :: "string \<Rightarrow> string" where
  "strip s = rev (dropWhile isspace (rev (dropWhile isspace s)))"

definition isdigit :: "string \<Rightarrow> bool" where
  "isdigit s = (s \<noteq> [] \<and> list_all (\<lambda>c. is_digit c \<or> c \<in> set [CHR 0xB2, CHR 0xB3, CHR 0xB9]) s)"

fun replace_first_dot :: "string \<Rightarrow> string" where
  "replace_first_dot [] = []"
| "replace_first_dot (c # cs) = (if c = CHR ''.'' then cs else c # replace_first_dot cs)"

text \<open>
  \<open>float(s)\<close> and \<open>int(s)\<close> on the strings the parser passes to them, all made of
  characters of the property Digit and dots: both accept decimal digits only, \<open>float\<close> with
  at most one dot and at least one digit, \<open>int\<close> up to its default limit of 4300 digits;
  anything else raises \<open>ValueError\<close>. The value of \<open>float\<close> is the decimal fraction
  read, a rational here and the nearest double (or \<open>inf\<close>) in Python.
\<close>

definition float_of :: "string \<Rightarrow> error + rat" where
  "float_of s =
     (let whole = takeWhile (\<lambda>c. c \<noteq> CHR ''.'') s;
          frac = drop (Suc (length whole)) s
      in if list_all is_digit whole \<and> list_all is_digit frac \<and> whole @ frac \<noteq> []
         then Inr (of_nat (int_of_digits whole) + of_nat (int_of_digits frac) / 10 ^ length frac)
         else Inl ValueError)"

definition int_of :: "string \<Rightarrow> error + rat" where
  "int_of s = (if s \<noteq> [] \<and> list_all is_digit s \<and> length s \<le> 4300
               then Inr (of_nat (int_of_digits s)) else Inl ValueError)"

text \<open>The first and the last position at which a string occurs in a text.\<close>

fun find_str :: "string \<Rightarrow> string \<Rightarrow> nat option" where
  "find_str [] sub = (if sub = [] then Some 0 else None)"
| "find_str (c # cs) sub =
     (if startswith (c # cs) sub then Some 0 else map_option Suc (find_str cs sub))"

fun rfind_str :: "string \<Rightarrow> string \<Rightarrow> nat option" where
  "rfind_str [] sub = (if sub = [] then Some 0 else None)"
| "rfind_str (c # cs) sub =
     (case rfind_str cs sub of
        Some i \<Rightarrow> Some (Suc i)
      | None \<Rightarrow> if startswith (c # cs) sub then Some 0 else None)"

text \<open>
  \<open>re.search(heading + r'.*?\n(\|.*\|\n)+', content, re.DOTALL)\<close>, returning group 0.
  With \<open>re.DOTALL\<close> the dot also matches a newline. So the match starts at the first
  occurrence of the heading; the lazy \<open>.*?\n\<close> runs to the first newline after the heading
  that is followed by a bar; and the greedy \<open>.*\<close> of the group runs to the last bar
  followed by a newline in the whole document, which has to lie beyond the opening bar.
  The match is the text from the heading up to that last bar and its newline.
\<close>

definition table_search :: "string \<Rightarrow> string \<Rightarrow> string option" where
  "table_search heading content =
     (case find_str content heading of
        None \<Rightarrow> None
      | Some p \<Rightarrow>
          (case find_str (drop (p + length heading) content) [CHR 0x0A, CHR ''|''] of
             None \<Rightarrow> None
           | Some q \<Rightarrow>
               (case rfind_str content [CHR ''|'', CHR 0x0A] of
                  None \<Rightarrow> None
                | Some r \<Rightarrow>
                    if p + length heading + q + 2 \<le> r
                    then Some (take (r + 2 - p) (drop p content)) else None)))"

text \<open>\<open>[c.strip() for c in row.split('|') if c.strip()]\<close>.\<close>

definition cells :: "string \<Rightarrow> string list" where
  "cells row = filter (\<lambda>c. c \<noteq> []) (map strip (split_on CHR ''|'' row))"

text \<open>\<open>stats[key] = value\<close> on a dict: a key keeps its place, a new key goes last.\<close>

fun dict_set :: "(string \<times> 'a) list \<Rightarrow> string \<Rightarrow> 'a \<Rightarrow> (string \<times> 'a) list" where
  "dict_set [] k v = [(k, v)]"
| "dict_set ((k', v') # d) k v = (if k' = k then (k, v) # d else (k', v') # dict_set d k v)"

text \<open>Sequencing of calls that may raise.\<close>

definition bind :: "error + 'a \<Rightarrow> ('a \<Rightarrow> error + 'b) \<Rightarrow> error + 'b" where
  "bind x f = (case x of Inl e \<Rightarrow> Inl e | Inr v \<Rightarrow> f v)"

subsection \<open>\<open>_extract_file_stats\<close>\<close>

text \<open>
  \<open>float(c) if c.replace('.','',1).isdigit() else 0\<close> and
  \<open>int(c) if c.isdigit() else 0\<close>.
\<close>

definition coerce_float :: "string \<Rightarrow> error + rat" where
  "coerce_float c = (if isdigit (replace_first_dot c) then float_of c else Inr 0)"

definition coerce_int :: "string \<Rightarrow> error + rat" where
  "coerce_int c = (if isdigit c then int_of c else Inr 0)"

fun file_stats_rows :: "string list \<Rightarrow> (string \<times> stats) list \<Rightarrow> error + (string \<times> stats) list" where
  "file_stats_rows [] stats = Inr stats"
| "file_stats_rows (row # data_rows) stats =
     (let cols = cells row in
      if length cols \<ge> 7 then
        bind (coerce_float (cols ! 1)) (\<lambda>mean.
        bind (coerce_float (cols ! 2)) (\<lambda>median.
        bind (coerce_float (cols ! 3)) (\<lambda>mode.
        bind (coerce_int (cols ! 5)) (\<lambda>min_files.
        bind (coerce_int (cols ! 6)) (\<lambda>max_files.
        bind (coerce_float (cols ! 4)) (\<lambda>std_dev.
          file_stats_rows data_rows
            (dict_set stats (cols ! 0)
               [(''mean'', mean), (''median'', median), (''mode'', mode), (''min'', min_files),
                (''max'', max_files), (''std_dev'', std_dev)])))))))
      else file_stats_rows data_rows stats)"

definition extract_file_stats :: "string \<Rightarrow> error + (string \<times> stats) list" where
  "extract_file_stats content =
     (case table_search ''File Processing Statistics by Day'' content of
        None \<Rightarrow> Inr []
      | Some table_str \<Rightarrow>
          (let rows = split_on CHR 0x0A (strip table_str);
               data_rows = filter (\<lambda>r. startswith r ''|'' \<and> \<not> contains r ''---'' \<and>
                                        \<not> contains r ''Mean Files'') rows
           in file_stats_rows data_rows []))"

subsection \<open>\<open>_extract_entity_stats\<close>\<close>

text \<open>
  \<open>re.search(label + r'([\d\.]+)', day_stat)\<close> and
  \<open>re.search(r'\*\*Resource ID\*\*: (\d+)', content)\<close>, returning group 1: the longest run
  of characters of the class after the first occurrence of the label that is followed by
  one. Below 256, \<open>\d\<close> matches the ASCII digits only.
\<close>

fun search_run :: "string \<Rightarrow> (char \<Rightarrow> bool) \<Rightarrow> string \<Rightarrow> string option" where
  "search_run label cls [] = None"
| "search_run label cls (c # cs) =
     (let after = drop (length label) (c # cs) in
      if startswith (c # cs) label \<and> after \<noteq> [] \<and> cls (hd after)
      then Some (takeWhile cls after)
      else search_run label cls cs)"

definition search_number :: "string \<Rightarrow> string \<Rightarrow> string option" where
  "search_number label text = search_run label (\<lambda>x. is_digit x \<or> x = CHR ''.'') text"

text \<open>\<open>float(m.group(1)) if m else 0\<close>.\<close>

definition float_or_zero :: "string option \<Rightarrow> error + rat" where
  "float_or_zero m = (case m of None \<Rightarrow> Inr 0 | Some g \<Rightarrow> float_of g)"

text \<open>
  The inner loop over \<open>enumerate(cols[1:])\<close>, which stops with the shorter of the cells and
  the days, and the loop over the data rows. \<open>stats[entity] = {}\<close> followed by the inner
  loop leaves at \<open>entity\<close> the dict the inner loop builds.
\<close>

fun entity_days :: "(string \<times> string) list \<Rightarrow> (string \<times> stats) list \<Rightarrow> error + (string \<times> stats) list" where
  "entity_days [] acc = Inr acc"
| "entity_days ((day_stat, day_name) # rest) acc =
     (let file_match = search_number ''Median Files: '' day_stat;
          row_match = search_number ''Median Rows: '' day_stat in
      bind (float_or_zero file_match) (\<lambda>median_files.
      bind (float_or_zero row_match) (\<lambda>median_rows.
        entity_days rest
          (dict_set acc day_name [(''median_files'', median_files), (''median_rows'', median_rows)]))))"

fun entity_rows ::
  "string list \<Rightarrow> string list \<Rightarrow> (string \<times> (string \<times> stats) list) list \<Rightarrow>
   error + (string \<times> (string \<times> stats) list) list"
where
  "entity_rows days [] stats = Inr stats"
| "entity_rows days (row # data_rows) stats =
     (let cols = cells row in
      if cols = [] then entity_rows days data_rows stats
      else bind (entity_days (zip (tl cols) days) []) (\<lambda>by_day.
             entity_rows days data_rows (dict_set stats (hd cols) by_day)))"

definition extract_entity_stats :: "string \<Rightarrow> error + (string \<times> (string \<times> stats) list) list" where
  "extract_entity_stats content =
     (case table_search ''Entity Statistics by Day of Week'' content of
        None \<Rightarrow> Inr []
      | Some table_str \<Rightarrow>
          (let rows = split_on CHR 0x0A (strip table_str) in
           case filter (\<lambda>r. contains r ''Entity'' \<and> contains r ''Monday'') rows of
             [] \<Rightarrow> Inl IndexError
           | header_row # _ \<Rightarrow>
               (let headers = cells header_row;
                    days = tl headers;
                    data_rows = filter (\<lambda>r. startswith r ''|'' \<and> \<not> contains r ''---'' \<and>
                                             \<not> contains r ''Entity'') rows
                in entity_rows days data_rows [])))"

subsection \<open>\<open>_extract_source_id\<close> and \<open>_extract_filename_patterns\<close>\<close>

definition extract_source_id :: "string \<Rightarrow> string" where
  "extract_source_id content =
     (case search_run ''**Resource ID**: '' is_digit content of
        None \<Rightarrow> ''Unknown''
      | Some digits \<Rightarrow> digits)"

text \<open>
  \<open>re.search(r'Generic structure\s*`([^`]+)`', content)\<close>, returning group 1: at the first
  occurrence of the label after which, past any whitespace, a backquote opens a non-empty
  run of other characters that a backquote closes.
\<close>

fun search_backquoted :: "string \<Rightarrow> string \<Rightarrow> string option" where
  "search_backquoted label [] = None"
| "search_backquoted label (c # cs) =
     (let after = dropWhile isspace (drop (length label) (c # cs));
          body = takeWhile (\<lambda>x. x \<noteq> CHR 0x60) (tl after);
          close = drop (length body) (tl after)
      in if startswith (c # cs) label \<and> after \<noteq> [] \<and> hd after = CHR 0x60 \<and> body \<noteq> [] \<and>
            close \<noteq> []
         then Some body
         else search_backquoted label cs)"

definition extract_filename_patterns :: "string \<Rightarrow> string list" where
  "extract_filename_patterns content =
     (case search_backquoted ''Generic structure'' content of
        None \<Rightarrow> []
      | Some pattern \<Rightarrow> [pattern])"

subsection \<open>\<open>_extract_upload_window\<close>\<close>

text \<open>\<open>s.replace(' UTC', '')\<close>.\<close>

fun remove_utc :: "string \<Rightarrow> string" where
  "remove_utc (a # b # c # d # rest) =
     (if [a, b, c, d] = '' UTC'' then remove_utc rest else a # remove_utc (b # c # d # rest))"
| "remove_utc s = s"

text \<open>
  The window of one cell. The source first looks for an en dash, a character beyond the
  model's; on the documents of the model that branch is never taken. A cell with a hyphen
  is split at its hyphens, and \<open>start, end = ...\<close> raises \<open>ValueError\<close> unless there are
  exactly two pieces.
\<close>

definition window_of :: "string \<Rightarrow> error + window" where
  "window_of window_str =
     (if contains window_str ''-'' then
        (case split_on CHR ''-'' window_str of
           [start, end] \<Rightarrow>
             Inr [(''start'', Some (remove_utc (strip start))), (''end'', Some (remove_utc (strip end)))]
         | _ \<Rightarrow> Inl ValueError)
      else Inr [(''start'', None), (''end'', None)])"

fun upload_window_rows :: "string list \<Rightarrow> (string \<times> window) list \<Rightarrow> error + (string \<times> window) list" where
  "upload_window_rows [] windows = Inr windows"
| "upload_window_rows (row # data_rows) windows =
     (let cols = cells row in
      if length cols \<ge> 6 then
        bind (window_of (cols ! 5)) (\<lambda>w.
          upload_window_rows data_rows (dict_set windows (cols ! 0) w))
      else upload_window_rows data_rows windows)"

definition extract_upload_window :: "string \<Rightarrow> error + (string \<times> window) list" where
  "extract_upload_window content =
     (case table_search ''Upload Schedule Patterns by Day'' content of
        None \<Rightarrow> Inr []
      | Some table_str \<Rightarrow>
          (let rows = split_on CHR 0x0A (strip table_str);
               data_rows = filter (\<lambda>r. startswith r ''|'' \<and> \<not> contains r ''---'' \<and>
                                        \<not> contains r ''Upload Hour'') rows
           in upload_window_rows data_rows []))"

subsection \<open>\<open>_extract_empty_file_stats\<close>\<close>

text \<open>
  \<open>s.split('<br>')\<close>, \<open>s.split(':', 1)\<close> on a string with a colon, and \<open>s.lower()\<close>,
  which below 256 moves the letters A to Z and \<open>0xC0\<close> to \<open>0xDE\<close>, the multiplication
  sign \<open>0xD7\<close> apart, up by 32.
\<close>

fun split_br :: "string \<Rightarrow> string list" where
  "split_br (a # b # c # d # rest) =
     (if [a, b, c, d] = ''<br>'' then [] # split_br rest
      else (case split_br (b # c # d # rest) of [] \<Rightarrow> [[a]] | w # ws \<Rightarrow> (a # w) # ws))"
| "split_br s = [s]"

definition split_colon_once :: "string \<Rightarrow> string \<times> string" where
  "split_colon_once line =
     (takeWhile (\<lambda>x. x \<noteq> CHR '':'') line, tl (dropWhile (\<lambda>x. x \<noteq> CHR '':'') line))"

definition lower_chr :: "char \<Rightarrow> char" where
  "lower_chr c =
     (let n = (of_char c :: nat) in
      if (65 \<le> n \<and> n \<le> 90) \<or> (192 \<le> n \<and> n \<le> 222 \<and> n \<noteq> 215) then char_of (n + 32) else c)"

text \<open>
  The loop over the lines of the cell. The bullets the source removes from a key are beyond
  the model's characters. A value passes the same \<open>isdigit\<close> guard as a cell of the
  file-count table before \<open>float\<close> reads it.
\<close>

fun empty_stats_lines :: "string list \<Rightarrow> stats \<Rightarrow> error + stats" where
  "empty_stats_lines [] day_stats = Inr day_stats"
| "empty_stats_lines (line # rest) day_stats =
     (if contains line '':'' then
        (let key = map lower_chr (strip (fst (split_colon_once line)));
             val = strip (snd (split_colon_once line)) in
         if isdigit (replace_first_dot val)
         then bind (float_of val) (\<lambda>v. empty_stats_lines rest (dict_set day_stats key v))
         else empty_stats_lines rest day_stats)
      else empty_stats_lines rest day_stats)"

fun empty_stats_rows :: "string list \<Rightarrow> (string \<times> stats) list \<Rightarrow> error + (string \<times> stats) list" where
  "empty_stats_rows [] stats = Inr stats"
| "empty_stats_rows (row # data_rows) stats =
     (let cols = cells row in
      if length cols \<ge> 3 then
        bind (empty_stats_lines (split_br (cols ! 2)) []) (\<lambda>day_stats.
          empty_stats_rows data_rows (dict_set stats (cols ! 0) day_stats))
      else empty_stats_rows data_rows stats)"

definition extract_empty_file_stats :: "string \<Rightarrow> error + (string \<times> stats) list" where
  "extract_empty_file_stats content =
     (case table_search ''Day-of-Week Summary'' content of
        None \<Rightarrow> Inr []
      | Some table_str \<Rightarrow>
          (let rows = split_on CHR 0x0A (strip table_str);
               data_rows = filter (\<lambda>r. startswith r ''|'' \<and> \<not> contains r ''---'' \<and>
                                        \<not> contains r ''Row Statistics'') rows
           in empty_stats_rows data_rows []))"

subsection \<open>\<open>CVParser.parse\<close>\<close>

text \<open>
  \<open>parse\<close> on the text of the document; a file that cannot be opened or read raises before
  any of this runs. The extractors are called in this order, and the first to raise ends
  the call.
\<close>

definition parse :: "string \<Rightarrow> error + SourceCV" where
  "parse content =
     (let sid = extract_source_id content in
      bind (extract_file_stats content) (\<lambda>expected_files.
      bind (extract_upload_window content) (\<lambda>upload_window.
      (let patterns = extract_filename_patterns content in
       bind (extract_entity_stats content) (\<lambda>entities.
       bind (extract_empty_file_stats content) (\<lambda>empty_files.
         Inr \<lparr>cv_source_id = sid, expected_files_by_day = expected_files,
              upload_window_by_day = upload_window, filename_patterns = patterns,
              entity_stats = entities, empty_file_stats = empty_files\<rparr>))))))"


section \<open>Consolidation (src/agent/report.py)\<close>

definition consolidate_source :: "string \<Rightarrow> Incident list \<Rightarrow> int \<Rightarrow> int \<Rightarrow> SourceReport" where
  "consolidate_source sid incs processed_count rows_total =
     (let urgent_incidents = filter (\<lambda>i. severity i = URGENT) incs;
          attention_incidents = filter (\<lambda>i. severity i = NEEDS_ATTENTION) incs;
          status =
            (if length urgent_incidents \<ge> 1 then URGENT
             else if length attention_incidents > 0 then
               (if length attention_incidents > 3 then URGENT else NEEDS_ATTENTION)
             else ALL_GOOD)
      in \<lparr>report_source_id = sid, report_status = status, incidents = incs,
          processed_files_count = processed_count, total_rows = rows_total\<rparr>)"

section \<open>The specification's own notions\<close>

text \<open>
  The effective minimum in the words of the specification: 1 when \<open>min\<close> is 0 and the
  median or the mode is positive, otherwise \<open>min\<close> itself (every statistic defaults to 0).
\<close>

definition spec_effective_minimum :: "stats \<Rightarrow> rat" where
  "spec_effective_minimum st =
     (if get st ''min'' 0 = 0 \<and> (get st ''median'' 0 > 0 \<or> get st ''mode'' 0 > 0) then 1
      else get st ''min'' 0)"

section \<open>Example inputs\<close>

text \<open>
  A profile with file-count statistics for Monday only (minimum 2), one entity expected on
  Mondays, and a second one with Monday statistics \<open>min = 0\<close>, \<open>median = 1\<close>.
  2025-09-08 is a Monday, 2025-09-10 a Wednesday.
\<close>

definition ex_cv_min2 :: SourceCV where
  "ex_cv_min2 =
     \<lparr>cv_source_id = ''207936'',
      expected_files_by_day =
        [(''Mon'', [(''mean'', 2), (''median'', 2), (''mode'', 2), (''min'', 2), (''max'', 3),
                    (''std_dev'', 1 / 2)])],
      upload_window_by_day = [(''Mon'', [(''start'', Some ''08:00:00''), (''end'', Some ''09:00:00'')])],
      filename_patterns = [],
      entity_stats = [(''Visa'', [(''Monday'', [(''median_files'', 1), (''median_rows'', 100)])])],
      empty_file_stats = []\<rparr>"

definition ex_cv_min0 :: SourceCV where
  "ex_cv_min0 =
     \<lparr>cv_source_id = ''207936'',
      expected_files_by_day =
        [(''Mon'', [(''mean'', 4 / 5), (''median'', 1), (''mode'', 1), (''min'', 0), (''max'', 2),
                    (''std_dev'', 1 / 2)])],
      upload_window_by_day = [(''Mon'', [(''start'', Some ''08:00:00''), (''end'', Some ''09:00:00'')])],
      filename_patterns = [],
      entity_stats = [(''Visa'', [(''Monday'', [(''median_files'', 1), (''median_rows'', 100)])])],
      empty_file_stats = [(''Mon'', [(''min'', 0), (''max'', 1)])]\<rparr>"

definition ex_file :: "string \<Rightarrow> int \<Rightarrow> string \<Rightarrow> FileMetadata" where
  "ex_file name n stamp =
     \<lparr>filename = name, rows = n, status = ''processed'', is_duplicated = False,
      file_size = None, uploaded_at = stamp, status_message = None\<rparr>"

text \<open>
  A profile whose file-count statistics cover Monday only, while the entity Visa has a
  median of 100 rows on Wednesdays.
\<close>

definition ex_cv_wed :: SourceCV where
  "ex_cv_wed =
     \<lparr>cv_source_id = ''207936'',
      expected_files_by_day =
        [(''Mon'', [(''mean'', 2), (''median'', 2), (''mode'', 2), (''min'', 2), (''max'', 3),
                    (''std_dev'', 1 / 2)])],
      upload_window_by_day = [],
      filename_patterns = [],
      entity_stats = [(''Visa'', [(''Wednesday'', [(''median_files'', 1), (''median_rows'', 100)])])],
      empty_file_stats = []\<rparr>"

text \<open>
  Profile documents. In the first, the last cell of the Monday row of the file-count table
  is the superscript two. In the second, the Monday cell of the entity Visa reads
  \<open>Median Files: 1.2.3\<close>. The third is a well-formed file-count table.
\<close>

definition ex_doc_superscript :: string where
  "ex_doc_superscript =
     ''File Processing Statistics by Day'' @ [CHR 0x0A] @
     ''| Mon | 2.0 | 2.0 | 2.0 | 0.5 | 1 | '' @ [CHR 0xB2] @ '' |'' @ [CHR 0x0A]"

definition ex_doc_two_dots :: string where
  "ex_doc_two_dots =
     ''Entity Statistics by Day of Week'' @ [CHR 0x0A] @
     ''| Entity | Monday |'' @ [CHR 0x0A] @
     ''| Visa | Median Files: 1.2.3 |'' @ [CHR 0x0A]"

definition ex_doc_file_stats :: string where
  "ex_doc_file_stats =
     ''File Processing Statistics by Day'' @ [CHR 0x0A] @
     ''| Mon | 2.0 | 2.0 | 2.0 | 0.5 | 1 | 3 |'' @ [CHR 0x0A]"


section \<open>Properties of the calendar\<close>

text \<open>
  On dates and datetimes that exist, the field-by-field comparison is the comparison of
  the ordinals and of the microsecond counts.
\<close>

lemma mod_400_100: "(n::nat) mod 400 = 0 \<Longrightarrow> n mod 100 = 0"
proof -
  assume "n mod 400 = 0"
  then have "400 dvd n" by (simp add: mod_eq_0_iff_dvd)
  moreover have "(100::nat) dvd 400" by simp
  ultimately have "100 dvd n" by (rule dvd_trans [rotated])
  then show ?thesis by (simp add: mod_eq_0_iff_dvd)
qed

lemma mod_100_4: "(n::nat) mod 100 = 0 \<Longrightarrow> n mod 4 = 0"
proof -
  assume "n mod 100 = 0"
  then have "100 dvd n" by (simp add: mod_eq_0_iff_dvd)
  moreover have "(4::nat) dvd 100" by simp
  ultimately have "4 dvd n" by (rule dvd_trans [rotated])
  then show ?thesis by (simp add: mod_eq_0_iff_dvd)
qed

lemma div_step:
  "0 < k \<Longrightarrow> int (Suc j) div int k = int j div int k + (if Suc j mod k = 0 then 1 else 0)"
proof -
  assume "0 < k"
  have "int (Suc j) div int k = int (Suc j div k)" by (simp only: zdiv_int)
  also have "\<dots> = int (j div k + (if Suc j mod k = 0 then 1 else 0))"
    by (simp add: div_Suc)
  also have "\<dots> = int j div int k + (if Suc j mod k = 0 then 1 else 0)"
    by (simp add: zdiv_int)
  finally show ?thesis .
qed

lemma days_before_year_Suc:
  assumes "1 \<le> y"
  shows "days_before_year (Suc y) = days_before_year y + (if is_leap y then 366 else 365)"
proof -
  from assms obtain j where y: "y = Suc j" by (cases y) auto
  have d4: "int (Suc j) div 4 = int j div 4 + (if Suc j mod 4 = 0 then 1 else 0)"
    using div_step [of 4 j] by simp
  have d100: "int (Suc j) div 100 = int j div 100 + (if Suc j mod 100 = 0 then 1 else 0)"
    using div_step [of 100 j] by simp
  have d400: "int (Suc j) div 400 = int j div 400 + (if Suc j mod 400 = 0 then 1 else 0)"
    using div_step [of 400 j] by simp
  have "days_before_year (Suc (Suc j)) =
          int (Suc j) * 365 + int (Suc j) div 4 - int (Suc j) div 100 + int (Suc j) div 400"
    by (simp add: days_before_year_def Let_def)
  also have "\<dots> = days_before_year (Suc j) + (if is_leap (Suc j) then 366 else 365)"
    unfolding d4 d100 d400
    using mod_400_100 [of "Suc j"] mod_100_4 [of "Suc j"]
    by (simp add: days_before_year_def Let_def is_leap_def)
  finally show ?thesis by (simp add: y)
qed


lemma month_cases:
  assumes "1 \<le> m" "m \<le> (12::nat)"
  shows "m = 1 \<or> m = 2 \<or> m = 3 \<or> m = 4 \<or> m = 5 \<or> m = 6 \<or> m = 7 \<or> m = 8 \<or> m = 9 \<or>
         m = 10 \<or> m = 11 \<or> m = 12"
  using assms by arith

lemma days_before_year_mono:
  assumes "1 \<le> y" "y \<le> y'"
  shows "days_before_year y \<le> days_before_year y'"
  using assms(2,1)
proof (induction rule: dec_induct)
  case base
  show ?case by simp
next
  case (step n)
  then have "1 \<le> n" by simp
  from days_before_year_Suc [OF this] step show ?case by (simp split: if_splits)
qed

lemma days_before_month_Suc:
  assumes "1 \<le> m" "m < 12"
  shows "days_before_month y (Suc m) = days_before_month y m + int (days_in_month y m)"
proof -
  from assms have "m = 1 \<or> m = 2 \<or> m = 3 \<or> m = 4 \<or> m = 5 \<or> m = 6 \<or> m = 7 \<or> m = 8 \<or> m = 9 \<or>
         m = 10 \<or> m = 11" by arith
  then show ?thesis
    by (elim disjE) (simp_all add: days_before_month_def days_in_month_def)
qed

lemma days_before_month_mono:
  assumes "1 \<le> m" "m \<le> m'" "m' \<le> 12"
  shows "days_before_month y m \<le> days_before_month y m'"
  using assms(2,1,3)
proof (induction rule: dec_induct)
  case base
  show ?case by simp
next
  case (step n)
  then have n: "1 \<le> n" "n < 12" by simp_all
  from days_before_month_Suc [OF n, of y] step show ?case by simp
qed

lemma ymd2ord_less_month:
  assumes "valid_date y m d" "valid_date y m' d'" "m < m'"
  shows "ymd2ord y m d < ymd2ord y m' d'"
proof -
  from assms have m: "1 \<le> m" "m < 12" and d: "d \<le> days_in_month y m" and d': "1 \<le> d'"
    and m': "Suc m \<le> m'" "m' \<le> 12"
    by (simp_all add: valid_date_def)
  have "days_before_month y m + int d \<le> days_before_month y (Suc m)"
    using days_before_month_Suc [OF m, of y] d by simp
  also have "\<dots> \<le> days_before_month y m'"
    using m m' by (intro days_before_month_mono) simp_all
  finally show ?thesis using d' by (simp add: ymd2ord_def)
qed

lemma days_before_month_nonneg:
  assumes "1 \<le> m" "m \<le> 12"
  shows "0 \<le> days_before_month y m"
  using month_cases [OF assms] by (elim disjE) (simp_all add: days_before_month_def)

lemma days_before_month_in_year:
  assumes "1 \<le> m" "m \<le> 12" "d \<le> days_in_month y m"
  shows "days_before_month y m + int d \<le> (if is_leap y then 366 else 365)"
  using month_cases [OF assms(1,2)] assms(3)
  by (elim disjE) (simp_all add: days_before_month_def days_in_month_def split: if_splits)

lemma ymd2ord_less_year:
  assumes "valid_date y m d" "valid_date y' m' d'" "y < y'"
  shows "ymd2ord y m d < ymd2ord y' m' d'"
proof -
  from assms have y: "1 \<le> y" "Suc y \<le> y'" and m: "1 \<le> m" "m \<le> 12" and d: "d \<le> days_in_month y m"
    and m': "1 \<le> m'" "m' \<le> 12" and d': "1 \<le> d'"
    by (simp_all add: valid_date_def)
  have "ymd2ord y m d \<le> days_before_year y + (if is_leap y then 366 else 365)"
    using days_before_month_in_year [OF m d] by (simp add: ymd2ord_def)
  also have "\<dots> = days_before_year (Suc y)" using days_before_year_Suc [OF y(1)] by simp
  also have "\<dots> \<le> days_before_year y'" using y by (intro days_before_year_mono) simp_all
  finally show ?thesis
    using days_before_month_nonneg [OF m', of y'] d' by (simp add: ymd2ord_def)
qed

lemma date_less_iff_ordinal:
  assumes a: "valid_date (year a) (month a) (day a)" and b: "valid_date (year b) (month b) (day b)"
  shows "date_less a b \<longleftrightarrow> toordinal a < toordinal b"
proof -
  have lt: "date_less x y \<Longrightarrow> toordinal x < toordinal y"
    if "valid_date (year x) (month x) (day x)" "valid_date (year y) (month y) (day y)" for x y
    using that ymd2ord_less_year [of "year x" "month x" "day x" "year y" "month y" "day y"]
      ymd2ord_less_month [of "year x" "month x" "day x" "month y" "day y"]
    by (auto simp: date_less_def toordinal_def ymd2ord_def)
  have tri: "date_less a b \<or> date_less b a \<or>
             (year a = year b \<and> month a = month b \<and> day a = day b)"
    by (auto simp: date_less_def)
  show ?thesis
  proof
    assume "date_less a b" then show "toordinal a < toordinal b" by (rule lt [OF a b])
  next
    assume l: "toordinal a < toordinal b"
    from tri show "date_less a b"
    proof (elim disjE)
      assume "date_less b a"
      from lt [OF b a this] l show ?thesis by simp
    next
      assume "year a = year b \<and> month a = month b \<and> day a = day b"
      with l show ?thesis by (simp add: toordinal_def)
    qed
  qed
qed

lemma datetime_less_iff_microseconds:
  assumes a: "valid_datetime a" and b: "valid_datetime b"
  shows "datetime_less a b \<longleftrightarrow> total_microseconds a < total_microseconds b"
proof -
  define ta where "ta = ((int (hour a) * 60 + int (minute a)) * 60 + int (second a)) * 1000000 +
     int (microsecond a)"
  define tb where "tb = ((int (hour b) * 60 + int (minute b)) * 60 + int (second b)) * 1000000 +
     int (microsecond b)"
  from a have ra: "0 \<le> ta" "ta < 86400000000" by (simp_all add: ta_def valid_datetime_def)
  from b have rb: "0 \<le> tb" "tb < 86400000000" by (simp_all add: tb_def valid_datetime_def)
  from a b have d: "date_less a b \<longleftrightarrow> toordinal a < toordinal b"
    and d': "date_less b a \<longleftrightarrow> toordinal b < toordinal a"
    by (simp_all add: date_less_iff_ordinal valid_datetime_def)
  have same: "toordinal a = toordinal b \<longleftrightarrow> year a = year b \<and> month a = month b \<and> day a = day b"
  proof
    assume e: "toordinal a = toordinal b"
    with d d' have "\<not> date_less a b" "\<not> date_less b a" by simp_all
    then show "year a = year b \<and> month a = month b \<and> day a = day b"
      by (auto simp: date_less_def)
  qed (simp add: toordinal_def)
  have time: "(hour a < hour b \<or> (hour a = hour b \<and>
          (minute a < minute b \<or> (minute a = minute b \<and>
            (second a < second b \<or> (second a = second b \<and> microsecond a < microsecond b))))))
        \<longleftrightarrow> ta < tb"
    using a b unfolding ta_def tb_def valid_datetime_def by auto
  have tot: "total_microseconds a = toordinal a * 86400000000 + ta"
    "total_microseconds b = toordinal b * 86400000000 + tb"
    by (simp_all add: total_microseconds_def ta_def tb_def)
  have r: "total_microseconds a < total_microseconds b \<longleftrightarrow>
        toordinal a < toordinal b \<or> (toordinal a = toordinal b \<and> ta < tb)"
    unfolding tot using ra rb by auto
  have l: "datetime_less a b \<longleftrightarrow>
        toordinal a < toordinal b \<or> (toordinal a = toordinal b \<and> ta < tb)"
    unfolding datetime_less_def using d same time by blast
  from l r show ?thesis by simp
qed

section \<open>Properties of the consolidation\<close>

lemma filter_nonempty_iff: "0 < length (filter P xs) \<longleftrightarrow> (\<exists>x\<in>set xs. P x)"
  by (simp add: filter_empty_conv)

lemma filter_ge1_iff: "1 \<le> length (filter P xs) \<longleftrightarrow> (\<exists>x\<in>set xs. P x)"
  using filter_nonempty_iff [of P xs] by (simp add: Suc_le_eq)

text \<open>
  C2. Source consolidation severity policy: Urgent if at least one incident is Urgent; else
  Urgent if more than three incidents are NeedsAttention; else NeedsAttention if at least one
  is; else AllGood. Incidents of severity AllGood never affect the status: dropping them
  leaves it unchanged. Exactly three NeedsAttention incidents and no Urgent one give
  NeedsAttention, four give Urgent.
\<close>

theorem consolidate_source_policy:
  "report_status (consolidate_source sid incs pc tr) =
     (if (\<exists>i\<in>set incs. severity i = URGENT) then URGENT
      else if 3 < length (filter (\<lambda>i. severity i = NEEDS_ATTENTION) incs) then URGENT
      else if (\<exists>i\<in>set incs. severity i = NEEDS_ATTENTION) then NEEDS_ATTENTION
      else ALL_GOOD)
   \<and> report_status (consolidate_source sid (filter (\<lambda>i. severity i \<noteq> ALL_GOOD) incs) pc tr) =
       report_status (consolidate_source sid incs pc tr)
   \<and> ((\<forall>i\<in>set incs. severity i \<noteq> URGENT) \<and>
        length (filter (\<lambda>i. severity i = NEEDS_ATTENTION) incs) = 3 \<longrightarrow>
        report_status (consolidate_source sid incs pc tr) = NEEDS_ATTENTION)
   \<and> ((\<forall>i\<in>set incs. severity i \<noteq> URGENT) \<and>
        length (filter (\<lambda>i. severity i = NEEDS_ATTENTION) incs) = 4 \<longrightarrow>
        report_status (consolidate_source sid incs pc tr) = URGENT)"
proof -
  let ?na = "\<lambda>i. severity i = NEEDS_ATTENTION"
  let ?ur = "\<lambda>i. severity i = URGENT"
  let ?keep = "\<lambda>i. severity i \<noteq> ALL_GOOD"
  have st: "report_status (consolidate_source sid xs pc tr) =
     (if (\<exists>i\<in>set xs. ?ur i) then URGENT
      else if 3 < length (filter ?na xs) then URGENT
      else if (\<exists>i\<in>set xs. ?na i) then NEEDS_ATTENTION
      else ALL_GOOD)" for xs
    unfolding consolidate_source_def Let_def
    using filter_ge1_iff [of ?ur xs] filter_nonempty_iff [of ?na xs]
    by (simp del: One_nat_def)
  have f1: "filter ?na (filter ?keep incs) = filter ?na incs"
    by (induction incs) auto
  have f2: "(\<exists>i\<in>set (filter ?keep incs). ?ur i) \<longleftrightarrow> (\<exists>i\<in>set incs. ?ur i)"
    by auto
  have f3: "(\<exists>i\<in>set (filter ?keep incs). ?na i) \<longleftrightarrow> (\<exists>i\<in>set incs. ?na i)"
    by auto
  have drop: "report_status (consolidate_source sid (filter ?keep incs) pc tr) =
              report_status (consolidate_source sid incs pc tr)"
    unfolding st f1 f2 f3 ..
  have three: "(\<forall>i\<in>set incs. \<not> ?ur i) \<and> length (filter ?na incs) = 3 \<longrightarrow>
        report_status (consolidate_source sid incs pc tr) = NEEDS_ATTENTION"
    using filter_nonempty_iff [of ?na incs] by (auto simp: st)
  have four: "(\<forall>i\<in>set incs. \<not> ?ur i) \<and> length (filter ?na incs) = 4 \<longrightarrow>
        report_status (consolidate_source sid incs pc tr) = URGENT"
    by (auto simp: st)
  from st [of incs] drop three four show ?thesis by blast
qed

theorem consolidate_source_policy_witness:
  "report_status (consolidate_source ''s1''
       (replicate 3 \<lparr>incident_type = LATE_UPLOAD, severity = NEEDS_ATTENTION, description = [],
          recommendation = [], source_id = ''s1'', file_name = None, details = []\<rparr> @
        [\<lparr>incident_type = PREVIOUS_FILE, severity = ALL_GOOD, description = [],
          recommendation = [], source_id = ''s1'', file_name = None, details = []\<rparr>]) 4 10)
     = NEEDS_ATTENTION
   \<and> report_status (consolidate_source ''s1''
       (replicate 4 \<lparr>incident_type = LATE_UPLOAD, severity = NEEDS_ATTENTION, description = [],
          recommendation = [], source_id = ''s1'', file_name = None, details = []\<rparr>) 4 10)
     = URGENT"
proof -
  let ?na = "\<lparr>incident_type = LATE_UPLOAD, severity = NEEDS_ATTENTION, description = [],
          recommendation = [], source_id = ''s1'', file_name = None, details = []\<rparr>"
  let ?ok = "\<lparr>incident_type = PREVIOUS_FILE, severity = ALL_GOOD, description = [],
          recommendation = [], source_id = ''s1'', file_name = None, details = []\<rparr>"
  have a: "report_status (consolidate_source ''s1'' (replicate 3 ?na @ [?ok]) 4 10) = NEEDS_ATTENTION"
    using consolidate_source_policy [of "''s1''" "replicate 3 ?na @ [?ok]" 4 10]
    by (simp add: numeral_3_eq_3)
  have b: "report_status (consolidate_source ''s1'' (replicate 4 ?na) 4 10) = URGENT"
    using consolidate_source_policy [of "''s1''" "replicate 4 ?na" 4 10]
    by simp
  from a b show ?thesis by simp
qed

section \<open>Properties of MissingFileDetector\<close>

text \<open>
  C3. Disabled-weekday invariant: when the profile's expected file counts have no entry for
  the abbreviated weekday of the evaluation date, MissingFileDetector returns the empty
  list, whatever the batch: neither the file-count check nor the entity-presence check runs.
\<close>

theorem missing_file_no_entry_disabled:
  "map_of (expected_files_by_day cv) (strftime_a current_date) = None \<Longrightarrow>
   MissingFileDetector_detect files cv current_date = Inr []"
  by (simp add: MissingFileDetector_detect_def)

text \<open>
  On Wednesday 2025-09-10 the example profile, which expects two files and the entity Visa
  on Mondays, raises nothing for a batch of one unrelated file.
\<close>

theorem missing_file_no_entry_disabled_witness:
  "map_of (expected_files_by_day ex_cv_min2) (strftime_a (mk_date 2025 9 10)) = None \<and>
   MissingFileDetector_detect [ex_file ''a.csv'' 5 ''2025-09-10T08:00:00''] ex_cv_min2
     (mk_date 2025 9 10) = Inr []"
proof -
  have h: "map_of (expected_files_by_day ex_cv_min2) (strftime_a (mk_date 2025 9 10)) = None"
    by code_simp
  from h missing_file_no_entry_disabled [OF h] show ?thesis by simp
qed

lemma missing_entities_wf:
  assumes "\<forall>(e, s)\<in>set es. \<forall>ds. map_of s dn = Some ds \<longrightarrow> ds \<noteq> [] \<longrightarrow>
             map_of ds ''median_files'' \<noteq> None"
  shows "missing_entities cv dn present es =
           Inr (map (\<lambda>(e, s). missing_entity_incident cv e)
                  (filter (\<lambda>(e, s). case map_of s dn of None \<Rightarrow> False
                                     | Some ds \<Rightarrow> ds \<noteq> [] \<and> get ds ''median_files'' 0 > 0 \<and>
                                                 e \<notin> set present) es))"
  using assms
proof (induction es)
  case Nil
  show ?case by simp
next
  case (Cons p es)
  obtain e s where p: "p = (e, s)" by (cases p)
  from Cons.prems have rest: "\<forall>(e, s)\<in>set es. \<forall>ds. map_of s dn = Some ds \<longrightarrow> ds \<noteq> [] \<longrightarrow>
             map_of ds ''median_files'' \<noteq> None"
    by simp
  note ih = Cons.IH [OF rest]
  show ?case
  proof (cases "map_of s dn")
    case None
    with ih p show ?thesis by simp
  next
    case (Some ds)
    show ?thesis
    proof (cases "ds = []")
      case True
      with Some ih p show ?thesis by simp
    next
      case False
      with Cons.prems p Some obtain mf where mf: "map_of ds ''median_files'' = Some mf"
        by auto
      with False Some ih p show ?thesis by (simp add: get_def)
    qed
  qed
qed

lemma threshold_is_spec:
  "(if get st ''min'' 0 = (0::rat)
    then (if get st ''median'' 0 > (0::rat) \<or> get st ''mode'' 0 > (0::rat) then 1 else 0)
    else get st ''min'' 0) = spec_effective_minimum st"
  by (simp add: spec_effective_minimum_def)

text \<open>
  C1 (as amended). With non-empty statistics for the abbreviated weekday, and entity
  day-entries that carry their \<open>median_files\<close>, the detector returns the file-count incident
  followed by the entity incidents. The file-count incident, Urgent and of type MissingFile,
  is present exactly when the number of files is below the effective minimum, which it
  carries in \<open>details\<close>; the effective minimum is 1 when \<open>min\<close> is 0 and the median or mode
  is positive, and \<open>min\<close> itself otherwise. One further Urgent MissingFile incident follows
  for each entity whose median file count under the full weekday name is positive and
  whose name no file was attributed to. For an empty batch with a positive median or mode
  and \<open>min \<ge> 0\<close>, exactly one incident carries an effective minimum: 1 when \<open>min\<close> is 0,
  and \<open>min\<close> when it is positive.
\<close>

theorem missing_file_threshold:
  assumes st: "map_of (expected_files_by_day cv) (strftime_a d) = Some st" and ne: "st \<noteq> []"
    and wf: "\<forall>(e, s)\<in>set (entity_stats cv). \<forall>ds. map_of s (strftime_A d) = Some ds \<longrightarrow>
               ds \<noteq> [] \<longrightarrow> map_of ds ''median_files'' \<noteq> None"
  shows "\<exists>cnt ents.
     MissingFileDetector_detect files cv d = Inr (cnt @ ents)
   \<and> cnt = (if of_nat (length files) < spec_effective_minimum st
            then [file_count_incident cv (spec_effective_minimum st) (get st ''min'' 0)
                    (get st ''mean'' 0) (length files)]
            else [])
   \<and> (\<forall>i\<in>set cnt. incident_type i = MISSING_FILE \<and> severity i = URGENT \<and>
         map_of (details i) ''expected_min'' = Some (Num (spec_effective_minimum st)) \<and>
         map_of (details i) ''found'' = Some (Num (of_nat (length files))))
   \<and> ents = map (\<lambda>(e, s). missing_entity_incident cv e)
              (filter (\<lambda>(e, s). case map_of s (strftime_A d) of None \<Rightarrow> False
                         | Some ds \<Rightarrow> ds \<noteq> [] \<and> get ds ''median_files'' 0 > 0 \<and>
                                     e \<notin> set (List.map_filter (entity_of cv) files))
                 (entity_stats cv))
   \<and> (\<forall>i\<in>set ents. incident_type i = MISSING_FILE \<and> severity i = URGENT \<and>
         map_of (details i) ''expected_min'' = None)
   \<and> (files = [] \<and> get st ''min'' 0 \<ge> 0 \<and> (get st ''median'' 0 > 0 \<or> get st ''mode'' 0 > 0) \<longrightarrow>
        length cnt = 1 \<and>
        spec_effective_minimum st = (if get st ''min'' 0 = 0 then 1 else get st ''min'' 0))"
proof -
  let ?eff = "spec_effective_minimum st"
  let ?cnt = "if of_nat (length files) < ?eff
            then [file_count_incident cv ?eff (get st ''min'' 0) (get st ''mean'' 0) (length files)]
            else []"
  let ?ents = "map (\<lambda>(e, s). missing_entity_incident cv e)
              (filter (\<lambda>(e, s). case map_of s (strftime_A d) of None \<Rightarrow> False
                         | Some ds \<Rightarrow> ds \<noteq> [] \<and> get ds ''median_files'' 0 > 0 \<and>
                                     e \<notin> set (List.map_filter (entity_of cv) files))
                 (entity_stats cv))"
  have run: "MissingFileDetector_detect files cv d = Inr (?cnt @ ?ents)"
    unfolding MissingFileDetector_detect_def Let_def
    by (simp only: st ne option.case if_False threshold_is_spec missing_entities_wf [OF wf] sum.case)
  have cnt: "\<forall>i\<in>set ?cnt. incident_type i = MISSING_FILE \<and> severity i = URGENT \<and>
         map_of (details i) ''expected_min'' = Some (Num ?eff) \<and>
         map_of (details i) ''found'' = Some (Num (of_nat (length files)))"
    by (simp add: file_count_incident_def)
  have ents: "\<forall>i\<in>set ?ents. incident_type i = MISSING_FILE \<and> severity i = URGENT \<and>
         map_of (details i) ''expected_min'' = None"
    by (auto simp: missing_entity_incident_def)
  have empty: "files = [] \<and> get st ''min'' 0 \<ge> 0 \<and> (get st ''median'' 0 > 0 \<or> get st ''mode'' 0 > 0) \<longrightarrow>
        length ?cnt = 1 \<and> ?eff = (if get st ''min'' 0 = 0 then 1 else get st ''min'' 0)"
    by (auto simp: spec_effective_minimum_def)
  from run cnt ents empty show ?thesis by blast
qed

text \<open>
  Monday 2025-09-08, empty batch, Monday statistics \<open>min = 0\<close>, \<open>median = 1\<close>: one
  file-count incident with effective minimum 1, then the incident for the entity Visa.
\<close>

theorem missing_file_threshold_witness:
  "map_of (expected_files_by_day ex_cv_min0) (strftime_a (mk_date 2025 9 8)) =
     Some [(''mean'', 4 / 5), (''median'', 1), (''mode'', 1), (''min'', 0), (''max'', 2),
           (''std_dev'', 1 / 2)]
   \<and> MissingFileDetector_detect [] ex_cv_min0 (mk_date 2025 9 8) =
       Inr [file_count_incident ex_cv_min0 1 0 (4 / 5) 0, missing_entity_incident ex_cv_min0 ''Visa'']"
proof -
  let ?st = "[(''mean'', 4 / 5), (''median'', 1), (''mode'', 1), (''min'', 0), (''max'', 2),
           (''std_dev'', 1 / 2)] :: stats"
  have da: "strftime_a (mk_date 2025 9 8) = ''Mon''" by code_simp
  have dA: "strftime_A (mk_date 2025 9 8) = ''Monday''" by code_simp
  have h1: "map_of (expected_files_by_day ex_cv_min0) (strftime_a (mk_date 2025 9 8)) = Some ?st"
    by (simp add: da ex_cv_min0_def)
  have h2: "?st \<noteq> []" by simp
  have h3: "\<forall>(e, s)\<in>set (entity_stats ex_cv_min0). \<forall>ds.
              map_of s (strftime_A (mk_date 2025 9 8)) = Some ds \<longrightarrow>
              ds \<noteq> [] \<longrightarrow> map_of ds ''median_files'' \<noteq> None"
    by (auto simp: dA ex_cv_min0_def)
  have eff: "spec_effective_minimum ?st = 1"
    by (simp add: spec_effective_minimum_def get_def)
  have mf: "get [(''median_files'', 1::rat), (''median_rows'', 100)] ''median_files'' 0 = 1"
    by (simp add: get_def)
  have es: "entity_stats ex_cv_min0 =
              [(''Visa'', [(''Monday'', [(''median_files'', 1), (''median_rows'', 100)])])]"
    by (simp add: ex_cv_min0_def)
  from missing_file_threshold [OF h1 h2 h3, of "[]"]
  have "MissingFileDetector_detect [] ex_cv_min0 (mk_date 2025 9 8) =
       Inr [file_count_incident ex_cv_min0 1 0 (4 / 5) 0, missing_entity_incident ex_cv_min0 ''Visa'']"
    by (simp add: eff dA es mf get_def List.map_filter_simps)
  with h1 show ?thesis by simp
qed

text \<open>
  The claim as stated fails on Monday 2025-09-08 for the profile with \<open>min = 2\<close>,
  \<open>median = 2\<close>: the empty batch yields two Urgent MissingFile incidents, and the
  file-count incident carries the effective minimum 2, not 1.
\<close>

theorem missing_file_empty_batch_counterexample:
  "get [(''mean'', 2), (''median'', 2), (''mode'', 2), (''min'', 2), (''max'', 3), (''std_dev'', 1 / 2)]
      ''median'' (0::rat) > 0
   \<and> map_of (expected_files_by_day ex_cv_min2) (strftime_a (mk_date 2025 9 8)) =
       Some [(''mean'', 2), (''median'', 2), (''mode'', 2), (''min'', 2), (''max'', 3),
             (''std_dev'', 1 / 2)]
   \<and> MissingFileDetector_detect [] ex_cv_min2 (mk_date 2025 9 8) =
       Inr [file_count_incident ex_cv_min2 2 2 2 0, missing_entity_incident ex_cv_min2 ''Visa'']
   \<and> map_of (details (file_count_incident ex_cv_min2 2 2 2 0)) ''expected_min'' = Some (Num 2)
   \<and> severity (missing_entity_incident ex_cv_min2 ''Visa'') = URGENT
   \<and> incident_type (missing_entity_incident ex_cv_min2 ''Visa'') = MISSING_FILE"
proof -
  have da: "strftime_a (mk_date 2025 9 8) = ''Mon''" by code_simp
  have dA: "strftime_A (mk_date 2025 9 8) = ''Monday''" by code_simp
  show ?thesis
    by (simp add: MissingFileDetector_detect_def da dA ex_cv_min2_def get_def
          List.map_filter_simps file_count_incident_def missing_entity_incident_def)
qed

section \<open>Properties of DuplicatedFailedFileDetector\<close>

lemma duplicated_failed_loop_index:
  "duplicated_failed_loop cv seen fs =
     concat (map (\<lambda>i.
        (if is_duplicated (fs ! i) \<or> status (fs ! i) = ''STOPPED'' \<or> status (fs ! i) = ''failed''
         then [duplicated_or_failed_incident cv (fs ! i)] else [])
        @ (if filename (fs ! i) \<in> seen \<union> filename ` set (take i fs)
           then [duplicate_name_incident cv (fs ! i)] else []))
      [0..<length fs])"
proof -
  define A where "A f = (if is_duplicated f \<or> status f = ''STOPPED'' \<or> status f = ''failed''
         then [duplicated_or_failed_incident cv f] else [])" for f
  define B where "B S f = (if filename f \<in> S then [duplicate_name_incident cv f] else [])"
    for S f
  have unroll: "duplicated_failed_loop cv S (f # gs) =
                  A f @ B S f @ duplicated_failed_loop cv (insert (filename f) S) gs" for S f gs
    by (simp only: duplicated_failed_loop.simps A_def B_def)
  have loop: "duplicated_failed_loop cv S gs =
     concat (map (\<lambda>i. A (gs ! i) @ B (S \<union> filename ` set (take i gs)) (gs ! i)) [0..<length gs])"
    for S gs
  proof (induction gs arbitrary: S)
    case Nil
    show ?case by simp
  next
    case (Cons f gs)
    have step: "insert (filename f) S \<union> filename ` set (take i gs) =
                S \<union> filename ` set (take (Suc i) (f # gs))" for i
      by auto
    show ?case
      unfolding unroll Cons.IH step length_Cons map_upt_Suc
      by simp
  qed
  show ?thesis
    unfolding loop A_def B_def ..
qed

text \<open>
  C6. For every batch the detector emits, file by file in batch order, an Urgent
  DuplicatedFile incident when the file's duplicate flag is set or its status is exactly
  \<open>STOPPED\<close> or \<open>failed\<close>, and, independently, a second Urgent DuplicatedFile incident
  when the filename already occurred earlier in the batch; a file meeting both conditions
  contributes two distinct incidents.
\<close>

theorem duplicated_failed_per_file:
  "DuplicatedFailedFileDetector_detect files cv d =
     concat (map (\<lambda>i.
        (if is_duplicated (files ! i) \<or> status (files ! i) = ''STOPPED'' \<or>
            status (files ! i) = ''failed''
         then [duplicated_or_failed_incident cv (files ! i)] else [])
        @ (if filename (files ! i) \<in> filename ` set (take i files)
           then [duplicate_name_incident cv (files ! i)] else []))
      [0..<length files])
   \<and> (\<forall>f. incident_type (duplicated_or_failed_incident cv f) = DUPLICATED_FILE \<and>
            severity (duplicated_or_failed_incident cv f) = URGENT \<and>
            file_name (duplicated_or_failed_incident cv f) = Some (filename f) \<and>
            incident_type (duplicate_name_incident cv f) = DUPLICATED_FILE \<and>
            severity (duplicate_name_incident cv f) = URGENT \<and>
            file_name (duplicate_name_incident cv f) = Some (filename f) \<and>
            duplicated_or_failed_incident cv f \<noteq> duplicate_name_incident cv f)"
proof -
  have "DuplicatedFailedFileDetector_detect files cv d = duplicated_failed_loop cv {} files"
    by (simp add: DuplicatedFailedFileDetector_detect_def)
  also note duplicated_failed_loop_index [of cv "{}" files]
  finally have run: "DuplicatedFailedFileDetector_detect files cv d =
     concat (map (\<lambda>i.
        (if is_duplicated (files ! i) \<or> status (files ! i) = ''STOPPED'' \<or>
            status (files ! i) = ''failed''
         then [duplicated_or_failed_incident cv (files ! i)] else [])
        @ (if filename (files ! i) \<in> filename ` set (take i files)
           then [duplicate_name_incident cv (files ! i)] else []))
      [0..<length files])"
    by simp
  have shape: "\<forall>f. incident_type (duplicated_or_failed_incident cv f) = DUPLICATED_FILE \<and>
            severity (duplicated_or_failed_incident cv f) = URGENT \<and>
            file_name (duplicated_or_failed_incident cv f) = Some (filename f) \<and>
            incident_type (duplicate_name_incident cv f) = DUPLICATED_FILE \<and>
            severity (duplicate_name_incident cv f) = URGENT \<and>
            file_name (duplicate_name_incident cv f) = Some (filename f) \<and>
            duplicated_or_failed_incident cv f \<noteq> duplicate_name_incident cv f"
    by (simp add: duplicated_or_failed_incident_def duplicate_name_incident_def)
  from run shape show ?thesis by (rule conjI)
qed

text \<open>
  A batch of four: a clean file, a second upload of the same name with status \<open>failed\<close>
  (two incidents), a file with status \<open>stopped\<close> in lower case (none), and a flagged one.
\<close>

theorem duplicated_failed_per_file_witness:
  "DuplicatedFailedFileDetector_detect
     [ex_file ''a.csv'' 5 ''2025-09-08T08:00:00'',
      (ex_file ''a.csv'' 5 ''2025-09-08T08:10:00'')\<lparr>status := ''failed''\<rparr>,
      (ex_file ''b.csv'' 5 ''2025-09-08T08:20:00'')\<lparr>status := ''stopped''\<rparr>,
      (ex_file ''c.csv'' 5 ''2025-09-08T08:30:00'')\<lparr>is_duplicated := True\<rparr>]
     ex_cv_min2 (mk_date 2025 9 8) =
   [duplicated_or_failed_incident ex_cv_min2
      ((ex_file ''a.csv'' 5 ''2025-09-08T08:10:00'')\<lparr>status := ''failed''\<rparr>),
    duplicate_name_incident ex_cv_min2
      ((ex_file ''a.csv'' 5 ''2025-09-08T08:10:00'')\<lparr>status := ''failed''\<rparr>),
    duplicated_or_failed_incident ex_cv_min2
      ((ex_file ''c.csv'' 5 ''2025-09-08T08:30:00'')\<lparr>is_duplicated := True\<rparr>)]"
  using duplicated_failed_per_file
    [of "[ex_file ''a.csv'' 5 ''2025-09-08T08:00:00'',
      (ex_file ''a.csv'' 5 ''2025-09-08T08:10:00'')\<lparr>status := ''failed''\<rparr>,
      (ex_file ''b.csv'' 5 ''2025-09-08T08:20:00'')\<lparr>status := ''stopped''\<rparr>,
      (ex_file ''c.csv'' 5 ''2025-09-08T08:30:00'')\<lparr>is_duplicated := True\<rparr>]"
     ex_cv_min2 "mk_date 2025 9 8"]
  by (simp add: ex_file_def upt_conv_Cons)

section \<open>Properties of UnexpectedEmptyFileDetector\<close>

lemma unexpected_empty_loop_filter:
  "unexpected_empty_loop cv m fs =
     (if m > 0 then [] else map (unexpected_empty_incident cv m) (filter (\<lambda>f. rows f = 0) fs))"
  by (induction fs) simp_all

text \<open>
  C4. Empty-file tolerance: when the \<open>max\<close> statistic of the weekday's empty-file baseline
  (abbreviated label, 0 when the weekday or the statistic is absent) is positive, the
  detector returns no incident, however many files are empty; otherwise it returns, in
  batch order, one Urgent UnexpectedEmpty incident for every file with zero rows.
\<close>

theorem unexpected_empty_tolerance:
  "UnexpectedEmptyFileDetector_detect files cv d =
     (if get (get (empty_file_stats cv) (strftime_a d) []) ''max'' 0 > 0 then []
      else map (unexpected_empty_incident cv (get (get (empty_file_stats cv) (strftime_a d) []) ''max'' 0))
             (filter (\<lambda>f. rows f = 0) files))
   \<and> (\<forall>m f. incident_type (unexpected_empty_incident cv m f) = UNEXPECTED_EMPTY \<and>
              severity (unexpected_empty_incident cv m f) = URGENT \<and>
              file_name (unexpected_empty_incident cv m f) = Some (filename f))"
  by (simp add: UnexpectedEmptyFileDetector_detect_def Let_def unexpected_empty_loop_filter
        unexpected_empty_incident_def)

text \<open>
  Monday 2025-09-08: the profile with \<open>max = 1\<close> tolerates the empty file; the profile
  without empty-file statistics raises one incident for the empty file and none for the
  other.
\<close>

theorem unexpected_empty_tolerance_witness:
  "UnexpectedEmptyFileDetector_detect [ex_file ''a.csv'' 0 ''2025-09-08T08:00:00''] ex_cv_min0
     (mk_date 2025 9 8) = []
   \<and> UnexpectedEmptyFileDetector_detect
       [ex_file ''a.csv'' 0 ''2025-09-08T08:00:00'', ex_file ''b.csv'' 7 ''2025-09-08T08:00:00'']
       ex_cv_min2 (mk_date 2025 9 8) =
     [unexpected_empty_incident ex_cv_min2 0 (ex_file ''a.csv'' 0 ''2025-09-08T08:00:00'')]"
proof -
  have da: "strftime_a (mk_date 2025 9 8) = ''Mon''" by code_simp
  have a: "UnexpectedEmptyFileDetector_detect [ex_file ''a.csv'' 0 ''2025-09-08T08:00:00'']
             ex_cv_min0 (mk_date 2025 9 8) = []"
    using unexpected_empty_tolerance
      [of "[ex_file ''a.csv'' 0 ''2025-09-08T08:00:00'']" ex_cv_min0 "mk_date 2025 9 8"]
    by (simp add: da ex_cv_min0_def get_def)
  have b: "UnexpectedEmptyFileDetector_detect
       [ex_file ''a.csv'' 0 ''2025-09-08T08:00:00'', ex_file ''b.csv'' 7 ''2025-09-08T08:00:00'']
       ex_cv_min2 (mk_date 2025 9 8) =
     [unexpected_empty_incident ex_cv_min2 0 (ex_file ''a.csv'' 0 ''2025-09-08T08:00:00'')]"
    using unexpected_empty_tolerance
      [of "[ex_file ''a.csv'' 0 ''2025-09-08T08:00:00'', ex_file ''b.csv'' 7 ''2025-09-08T08:00:00'']"
          ex_cv_min2 "mk_date 2025 9 8"]
    by (simp add: da ex_cv_min2_def get_def ex_file_def)
  from a b show ?thesis by (rule conjI)
qed

section \<open>Properties of UnexpectedVolumeVariationDetector\<close>

text \<open>
  C10. When the profile's expected file counts have no entry for the abbreviated weekday
  of the evaluation date, UnexpectedVolumeVariationDetector returns the empty list: the
  early return skips the per-file median-row check along with the aggregate surge check,
  whatever the entity statistics hold for that day's full weekday name.
\<close>

theorem volume_variation_no_entry_disabled:
  "map_of (expected_files_by_day cv) (strftime_a current_date) = None \<Longrightarrow>
   UnexpectedVolumeVariationDetector_detect files cv current_date = []"
  by (simp add: UnexpectedVolumeVariationDetector_detect_def)

text \<open>
  Wednesday 2025-09-10: the entity Visa has a median of 100 rows on Wednesdays and the file
  attributed to it has 5000 rows, so the per-file check alone would raise an incident; with
  no Wednesday entry among the expected file counts the detector returns nothing.
\<close>

theorem volume_variation_no_entry_disabled_witness:
  "map_of (expected_files_by_day ex_cv_wed) (strftime_a (mk_date 2025 9 10)) = None
   \<and> row_check ex_cv_wed (mk_date 2025 9 10)
        (ex_file ''77_Shop_Visa_settlement_20250910.csv'' 5000 ''2025-09-10T08:00:00'') =
       [row_deviation_incident ex_cv_wed
          (ex_file ''77_Shop_Visa_settlement_20250910.csv'' 5000 ''2025-09-10T08:00:00'') 100]
   \<and> UnexpectedVolumeVariationDetector_detect
        [ex_file ''77_Shop_Visa_settlement_20250910.csv'' 5000 ''2025-09-10T08:00:00'']
        ex_cv_wed (mk_date 2025 9 10) = []"
proof -
  have da: "strftime_a (mk_date 2025 9 10) = ''Wed''" by code_simp
  have dA: "strftime_A (mk_date 2025 9 10) = ''Wednesday''" by code_simp
  have h: "map_of (expected_files_by_day ex_cv_wed) (strftime_a (mk_date 2025 9 10)) = None"
    by (simp add: da ex_cv_wed_def)
  have ent: "entity_of ex_cv_wed
        (ex_file ''77_Shop_Visa_settlement_20250910.csv'' 5000 ''2025-09-10T08:00:00'') = Some ''Visa''"
    by (simp add: entity_of_def ex_cv_wed_def ex_file_def)
  have rc: "row_check ex_cv_wed (mk_date 2025 9 10)
        (ex_file ''77_Shop_Visa_settlement_20250910.csv'' 5000 ''2025-09-10T08:00:00'') =
       [row_deviation_incident ex_cv_wed
          (ex_file ''77_Shop_Visa_settlement_20250910.csv'' 5000 ''2025-09-10T08:00:00'') 100]"
    unfolding row_check_def ent
    by (simp add: dA ex_cv_wed_def get_def ex_file_def)
  from h rc volume_variation_no_entry_disabled [OF h] show ?thesis by simp
qed

section \<open>Properties of PreviousFileDetector\<close>

text \<open>
  What the pattern matches: the name ends with an underscore, eight digits and \<open>.csv\<close>,
  or with these and one final newline; the group is the eight digits.
\<close>

lemma date_suffix_core:
  "(13 \<le> length s \<and> s ! (length s - 13) = CHR ''_'' \<and>
    list_all is_digit (take 8 (drop (length s - 12) s)) \<and> drop (length s - 4) s = ''.csv'' \<and>
    ds = take 8 (drop (length s - 12) s))
   \<longleftrightarrow> (length ds = 8 \<and> list_all is_digit ds \<and> (\<exists>pre. s = pre @ ''_'' @ ds @ ''.csv''))"
  (is "?L \<longleftrightarrow> ?R")
proof
  assume L: ?L
  let ?n = "length s"
  from L have n: "13 \<le> ?n" by simp
  have a: "s = take (?n - 13) s @ drop (?n - 13) s" by simp
  from n have b: "drop (?n - 13) s = s ! (?n - 13) # drop (Suc (?n - 13)) s"
    by (intro Cons_nth_drop_Suc [symmetric]) simp
  from n have c: "Suc (?n - 13) = ?n - 12" by simp
  have d: "drop (?n - 12) s = take 8 (drop (?n - 12) s) @ drop 8 (drop (?n - 12) s)"
    by (rule append_take_drop_id [symmetric])
  from n have e: "drop 8 (drop (?n - 12) s) = drop (?n - 4) s" by simp
  from L have ds: "ds = take 8 (drop (?n - 12) s)" by simp
  from n have len: "length ds = 8" by (simp add: ds)
  have "s = take (?n - 13) s @ ''_'' @ ds @ ''.csv''"
    using a b c d e L ds by (metis append_Cons append_Nil)
  with len L ds show ?R by blast
next
  assume R: ?R
  then obtain pre where s: "s = pre @ ''_'' @ ds @ ''.csv''" and len: "length ds = 8"
    and dig: "list_all is_digit ds" by blast
  have n: "length s = length pre + 13" by (simp add: s len)
  show ?L
    unfolding n
    by (simp add: s len dig nth_append)
qed

lemma search_date_suffix_iff:
  "search_date_suffix name = Some ds \<longleftrightarrow>
     length ds = 8 \<and> list_all is_digit ds \<and>
     (\<exists>pre. name = pre @ ''_'' @ ds @ ''.csv'' \<or> name = pre @ ''_'' @ ds @ ''.csv'' @ [CHR 0x0A])"
proof (cases "name \<noteq> [] \<and> last name = CHR 0x0A")
  case True
  then have name: "name = butlast name @ [CHR 0x0A]" by (metis append_butlast_last_id)
  have no: "name \<noteq> pre @ ''_'' @ ds @ ''.csv''" for pre
  proof
    assume "name = pre @ ''_'' @ ds @ ''.csv''"
    then have "last name = CHR ''v''" by simp
    with True show False by simp
  qed
  have yes: "name = pre @ ''_'' @ ds @ ''.csv'' @ [CHR 0x0A] \<longleftrightarrow>
             butlast name = pre @ ''_'' @ ds @ ''.csv''" for pre
  proof
    assume "name = pre @ ''_'' @ ds @ ''.csv'' @ [CHR 0x0A]"
    then have "butlast name = butlast ((pre @ ''_'' @ ds @ ''.csv'') @ [CHR 0x0A])" by simp
    then show "butlast name = pre @ ''_'' @ ds @ ''.csv''" by (simp only: butlast_snoc)
  next
    assume "butlast name = pre @ ''_'' @ ds @ ''.csv''"
    with name show "name = pre @ ''_'' @ ds @ ''.csv'' @ [CHR 0x0A]" by simp
  qed
  have "search_date_suffix name = Some ds \<longleftrightarrow>
     (13 \<le> length (butlast name) \<and> butlast name ! (length (butlast name) - 13) = CHR ''_'' \<and>
      list_all is_digit (take 8 (drop (length (butlast name) - 12) (butlast name))) \<and>
      drop (length (butlast name) - 4) (butlast name) = ''.csv'' \<and>
      ds = take 8 (drop (length (butlast name) - 12) (butlast name)))"
    using True by (auto simp: search_date_suffix_def Let_def)
  also note date_suffix_core
  finally show ?thesis using no yes by simp
next
  case False
  have no: "name \<noteq> pre @ ''_'' @ ds @ ''.csv'' @ [CHR 0x0A]" for pre
  proof
    assume "name = pre @ ''_'' @ ds @ ''.csv'' @ [CHR 0x0A]"
    then have "name \<noteq> [] \<and> last name = CHR 0x0A" by simp
    with False show False by simp
  qed
  have "search_date_suffix name = Some ds \<longleftrightarrow>
     (13 \<le> length name \<and> name ! (length name - 13) = CHR ''_'' \<and>
      list_all is_digit (take 8 (drop (length name - 12) name)) \<and>
      drop (length name - 4) name = ''.csv'' \<and>
      ds = take 8 (drop (length name - 12) name))"
    using False by (auto simp: search_date_suffix_def Let_def)
  also note date_suffix_core
  finally show ?thesis using no by simp
qed

lemma strptime_Ymd_error: "strptime_Ymd s = Inl e \<Longrightarrow> e = ValueError"
  by (auto simp: strptime_Ymd_def Let_def split: if_splits)

text \<open>
  From the third day of year 1 on, the detector returns, in batch order, one AllGood
  PreviousFile incident for every file whose name matches the pattern, whose eight digits
  are a date that exists, and whose date lies more than two days before the evaluation date.
\<close>

lemma previous_file_per_file:
  assumes "2 < toordinal current_date"
  shows "PreviousFileDetector_detect files cv current_date =
     Inr (concat (map (\<lambda>f.
        case search_date_suffix (filename f) of
          None \<Rightarrow> []
        | Some file_date_str \<Rightarrow>
            (case strptime_Ymd file_date_str of
               Inl e \<Rightarrow> []
             | Inr file_date \<Rightarrow>
                 if 2 < toordinal current_date - toordinal file_date
                 then [previous_file_incident cv f file_date] else [])) files))"
  unfolding PreviousFileDetector_detect_def
proof (induction files)
  case Nil
  show ?case by simp
next
  case (Cons f fs)
  show ?case
  proof (cases "search_date_suffix (filename f)")
    case None
    with Cons.IH show ?thesis by simp
  next
    case (Some ds)
    show ?thesis
    proof (cases "strptime_Ymd ds")
      case (Inl e)
      with strptime_Ymd_error [of ds e] have "strptime_Ymd ds = Inl ValueError" by simp
      with Some Cons.IH show ?thesis by simp
    next
      case (Inr fd)
      have "toordinal fd < toordinal current_date - 2 \<longleftrightarrow> 2 < toordinal current_date - toordinal fd"
        by arith
      with Some Inr Cons.IH assms show ?thesis by simp
    qed
  qed
qed

lemma toordinal_sep_2025: "toordinal (mk_date 2025 9 d) = 739494 + int d"
  by (simp add: toordinal_def mk_date_def ymd2ord_def days_before_year_def
        days_before_month_def is_leap_def)

lemma strptime_Ymd_sep_2025:
  "strptime_Ymd ''20250907'' = Inr (mk_date 2025 9 7)"
  "strptime_Ymd ''20250908'' = Inr (mk_date 2025 9 8)"
  "strptime_Ymd ''20250909'' = Inr (mk_date 2025 9 9)"
  by (simp_all add: strptime_Ymd_def int_of_digits_def digit_val_def valid_date_def
        days_in_month_def is_leap_def)

text \<open>
  The scenario of the specification: evaluated on 2025-09-10, the name ending
  \<open>_20250907.csv\<close> yields one incident, the names ending \<open>_20250908.csv\<close> (exactly two
  days before) and \<open>_20250909.csv\<close> yield none, and neither does a name without the date.
\<close>

lemma previous_file_scenario:
  "PreviousFileDetector_detect
     [ex_file ''a_20250907.csv'' 5 ''2025-09-10T08:00:00'',
      ex_file ''b_20250908.csv'' 5 ''2025-09-10T08:00:00'',
      ex_file ''c_20250909.csv'' 5 ''2025-09-10T08:00:00'',
      ex_file ''d_2025.csv'' 5 ''2025-09-10T08:00:00'']
     ex_cv_min2 (mk_date 2025 9 10) =
   Inr [previous_file_incident ex_cv_min2 (ex_file ''a_20250907.csv'' 5 ''2025-09-10T08:00:00'')
          (mk_date 2025 9 7)]"
proof -
  have s: "search_date_suffix ''a_20250907.csv'' = Some ''20250907''"
    "search_date_suffix ''b_20250908.csv'' = Some ''20250908''"
    "search_date_suffix ''c_20250909.csv'' = Some ''20250909''"
    "search_date_suffix ''d_2025.csv'' = None"
    by (simp_all add: search_date_suffix_def is_digit_def)
  show ?thesis
    by (simp add: PreviousFileDetector_detect_def ex_file_def s strptime_Ymd_sep_2025
          toordinal_sep_2025)
qed

text \<open>
  On the first two days of year 1 a file with a dated name makes the detector raise
  \<open>OverflowError\<close>.
\<close>

lemma previous_file_overflow:
  "PreviousFileDetector_detect [ex_file ''a_00010101.csv'' 5 ''0001-01-02T08:00:00'']
     ex_cv_min2 (mk_date 1 1 2) = Inl OverflowError"
proof -
  have s: "search_date_suffix ''a_00010101.csv'' = Some ''00010101''"
    by (simp add: search_date_suffix_def is_digit_def)
  have p: "strptime_Ymd ''00010101'' = Inr (mk_date 1 1 1)"
    by (simp add: strptime_Ymd_def int_of_digits_def digit_val_def valid_date_def
          days_in_month_def is_leap_def)
  show ?thesis
    by (simp add: PreviousFileDetector_detect_def ex_file_def s p toordinal_def mk_date_def
          ymd2ord_def days_before_year_def days_before_month_def is_leap_def)
qed

text \<open>
  C7. The detector is to evaluate only files whose name ends with \<open>_YYYYMMDD.csv\<close>. The
  name \<open>x_20250907.csv\<close> followed by a newline does not end with \<open>.csv\<close>, yet on
  2025-09-10 the detector matches it and raises a PreviousFile incident for it.
\<close>

theorem previous_file_trailing_newline:
  "PreviousFileDetector_detect
     [ex_file (''x_20250907.csv'' @ [CHR 0x0A]) 5 ''2025-09-10T08:00:00'']
     ex_cv_min2 (mk_date 2025 9 10) =
   Inr [previous_file_incident ex_cv_min2
          (ex_file (''x_20250907.csv'' @ [CHR 0x0A]) 5 ''2025-09-10T08:00:00'')
          (mk_date 2025 9 7)]"
proof -
  have s: "search_date_suffix (''x_20250907.csv'' @ [CHR 0x0A]) = Some ''20250907''"
    by (simp add: search_date_suffix_def is_digit_def)
  show ?thesis
    by (simp add: PreviousFileDetector_detect_def ex_file_def s strptime_Ymd_sep_2025
          toordinal_sep_2025 del: append.simps)
qed

section \<open>Properties of LateUploadDetector\<close>

text \<open>No datetime that exists lies beyond the last representable microsecond.\<close>

lemma days_before_next_year:
  assumes "1 \<le> y" "y \<le> 9999"
  shows "days_before_year y + (if is_leap y then 366 else 365) \<le> 3652059"
proof (cases "y = 9999")
  case True
  then show ?thesis by (simp add: days_before_year_def is_leap_def)
next
  case False
  define k where "k = int y - 1"
  from False assms have k: "0 \<le> k" "k \<le> 9997" by (simp_all add: k_def)
  have a: "k div 4 \<le> 9997 div 4" using k(2) by (rule zdiv_mono1) simp
  have b: "k div 400 \<le> 9997 div 400" using k(2) by (rule zdiv_mono1) simp
  have c: "0 \<le> k div 100" using k(1) by (simp add: pos_imp_zdiv_nonneg_iff)
  have "k * 365 + k div 4 - k div 100 + k div 400 + 366 \<le> 3652059"
    using a b c k(2) by simp
  then show ?thesis
    by (simp add: days_before_year_def Let_def k_def)
qed

lemma ymd2ord_le_max: "valid_date y m d \<Longrightarrow> ymd2ord y m d \<le> 3652059"
  using days_before_month_in_year [of m d y] days_before_next_year [of y]
  by (simp add: valid_date_def ymd2ord_def)

lemma valid_datetime_le_max: "valid_datetime dt \<Longrightarrow> total_microseconds dt \<le> max_microseconds"
proof -
  assume v: "valid_datetime dt"
  then have o: "toordinal dt \<le> 3652059"
    by (simp add: valid_datetime_def toordinal_def ymd2ord_le_max)
  from v have t: "((int (hour dt) * 60 + int (minute dt)) * 60 + int (second dt)) * 1000000 +
     int (microsecond dt) < 86400000000"
    by (simp add: valid_datetime_def)
  from o t show ?thesis
    by (simp add: total_microseconds_def max_microseconds_def)
qed

lemma strptime_HMS_nonempty: "strptime_HMS s = Inr t \<Longrightarrow> s \<noteq> []"
  by (auto simp: strptime_HMS_def)

lemma late_upload_loop_parsed:
  assumes "\<forall>f\<in>set files. \<exists>dt tz. fromisoformat (uploaded_at f) = Inr (dt, tz)"
  shows "late_upload_loop fromisoformat cv end_time_str expected tolerance files =
     concat (map (\<lambda>f.
        case fromisoformat (uploaded_at f) of
          Inl e \<Rightarrow> []
        | Inr (dt, tz) \<Rightarrow>
            if total_microseconds dt > tolerance
            then [late_upload_incident cv f dt end_time_str expected] else []) files)"
  using assms
proof (induction files)
  case Nil
  show ?case by simp
next
  case (Cons f fs)
  from Cons.prems obtain dt tz where p: "fromisoformat (uploaded_at f) = Inr (dt, tz)"
    by auto
  from Cons.prems have "\<forall>f\<in>set fs. \<exists>dt tz. fromisoformat (uploaded_at f) = Inr (dt, tz)"
    by simp
  from Cons.IH [OF this] p show ?case by simp
qed

text \<open>
  C5. Late-upload tolerance deadline. Let the profile hold, for the abbreviated weekday of
  the evaluation date, an upload window whose end parses as a time of day, and let every
  upload timestamp of the batch parse to a datetime that exists (an offset, if any, is
  dropped). Then the detector returns, in batch order, one NeedsAttention LateUpload
  incident exactly for each file whose timestamp is strictly after the window end on the
  evaluation date plus four hours.
\<close>

theorem late_upload_deadline:
  assumes w: "map_of (upload_window_by_day cv) (strftime_a current_date) = Some window"
    and e: "map_of window ''end'' = Some (Some end_time_str)"
    and t: "strptime_HMS end_time_str = Inr end_time"
    and p: "\<forall>f\<in>set files. \<exists>dt tz. fromisoformat (uploaded_at f) = Inr (dt, tz) \<and> valid_datetime dt"
  shows "LateUploadDetector_detect fromisoformat files cv current_date =
     Inr (concat (map (\<lambda>f.
        case fromisoformat (uploaded_at f) of
          Inl e \<Rightarrow> []
        | Inr (dt, tz) \<Rightarrow>
            if total_microseconds dt >
               total_microseconds (combine current_date end_time) + 4 * 3600000000
            then [late_upload_incident cv f dt end_time_str (combine current_date end_time)]
            else []) files))
   \<and> (\<forall>f dt. incident_type (late_upload_incident cv f dt end_time_str
                                (combine current_date end_time)) = LATE_UPLOAD \<and>
               severity (late_upload_incident cv f dt end_time_str
                           (combine current_date end_time)) = NEEDS_ATTENTION \<and>
               file_name (late_upload_incident cv f dt end_time_str
                            (combine current_date end_time)) = Some (filename f))"
proof -
  let ?end = "combine current_date end_time"
  let ?deadline = "total_microseconds ?end + 4 * 3600000000"
  let ?per_file = "\<lambda>f. case fromisoformat (uploaded_at f) of
          Inl e \<Rightarrow> []
        | Inr (dt, tz) \<Rightarrow>
            if total_microseconds dt > ?deadline
            then [late_upload_incident cv f dt end_time_str ?end] else []"
  from e have wne: "window \<noteq> []" by auto
  from t have ene: "end_time_str \<noteq> []" by (rule strptime_HMS_nonempty)
  from p have p': "\<forall>f\<in>set files. \<exists>dt tz. fromisoformat (uploaded_at f) = Inr (dt, tz)"
    by blast
  have run: "LateUploadDetector_detect fromisoformat files cv current_date =
               Inr (concat (map ?per_file files))"
  proof (cases "?deadline > max_microseconds")
    case True
    have "?per_file f = []" if "f \<in> set files" for f
    proof -
      from p that obtain dt tz where
        q: "fromisoformat (uploaded_at f) = Inr (dt, tz)" and v: "valid_datetime dt"
        by blast
      from valid_datetime_le_max [OF v] True have "\<not> total_microseconds dt > ?deadline"
        by simp
      with q show ?thesis by simp
    qed
    then have "concat (map ?per_file files) = []" by simp
    moreover from True have "plus_hours ?end 4 = Inl OverflowError"
      by (simp add: plus_hours_def)
    ultimately show ?thesis
      by (simp add: LateUploadDetector_detect_def w e t wne ene)
  next
    case False
    then have "plus_hours ?end 4 = Inr ?deadline"
      by (simp add: plus_hours_def)
    then show ?thesis
      by (simp only: LateUploadDetector_detect_def Let_def w e t wne ene option.case sum.case
            if_False late_upload_loop_parsed [OF p'])
  qed
  have shape: "\<forall>f dt. incident_type (late_upload_incident cv f dt end_time_str ?end) = LATE_UPLOAD \<and>
               severity (late_upload_incident cv f dt end_time_str ?end) = NEEDS_ATTENTION \<and>
               file_name (late_upload_incident cv f dt end_time_str ?end) = Some (filename f)"
    by (simp add: late_upload_incident_def)
  from run shape show ?thesis by (rule conjI)
qed

text \<open>
  The scenario of the specification, on Monday 2025-09-08 with window end 09:00:00: the file
  uploaded at 14:05:00 yields one incident; the files uploaded at 12:30:00 and at 13:00:00,
  the deadline itself, yield none.
\<close>

lemma fromisoformat_T_examples:
  "fromisoformat_T ''2025-09-08T14:05:00+00:00'' =
     Inr (\<lparr>year = 2025, month = 9, day = 8, hour = 14, minute = 5, second = 0, microsecond = 0\<rparr>,
          Some 0)"
  "fromisoformat_T ''2025-09-08T12:30:00+00:00'' =
     Inr (\<lparr>year = 2025, month = 9, day = 8, hour = 12, minute = 30, second = 0, microsecond = 0\<rparr>,
          Some 0)"
  "fromisoformat_T ''2025-09-08T13:00:00'' =
     Inr (\<lparr>year = 2025, month = 9, day = 8, hour = 13, minute = 0, second = 0, microsecond = 0\<rparr>,
          None)"
  by (simp_all add: fromisoformat_T_def digits_at_def iso_offset_def is_digit_def
        int_of_digits_def digit_val_def valid_datetime_def valid_date_def days_in_month_def
        is_leap_def)

lemma strptime_HMS_nine: "strptime_HMS ''09:00:00'' = Inr (9, 0, 0)"
  by (simp add: strptime_HMS_def time_field_def is_digit_def int_of_digits_def digit_val_def)

theorem late_upload_deadline_witness:
  "map_of (upload_window_by_day ex_cv_min2) (strftime_a (mk_date 2025 9 8)) =
     Some [(''start'', Some ''08:00:00''), (''end'', Some ''09:00:00'')]
   \<and> strptime_HMS ''09:00:00'' = Inr (9, 0, 0)
   \<and> LateUploadDetector_detect fromisoformat_T
        [ex_file ''a.csv'' 5 ''2025-09-08T14:05:00+00:00'',
         ex_file ''b.csv'' 5 ''2025-09-08T12:30:00+00:00'',
         ex_file ''c.csv'' 5 ''2025-09-08T13:00:00'']
        ex_cv_min2 (mk_date 2025 9 8) =
       Inr [late_upload_incident ex_cv_min2 (ex_file ''a.csv'' 5 ''2025-09-08T14:05:00+00:00'')
              \<lparr>year = 2025, month = 9, day = 8, hour = 14, minute = 5, second = 0,
                 microsecond = 0\<rparr>
              ''09:00:00''
              \<lparr>year = 2025, month = 9, day = 8, hour = 9, minute = 0, second = 0,
                 microsecond = 0\<rparr>]"
proof -
  let ?files = "[ex_file ''a.csv'' 5 ''2025-09-08T14:05:00+00:00'',
         ex_file ''b.csv'' 5 ''2025-09-08T12:30:00+00:00'',
         ex_file ''c.csv'' 5 ''2025-09-08T13:00:00'']"
  have da: "strftime_a (mk_date 2025 9 8) = ''Mon''" by code_simp
  have w: "map_of (upload_window_by_day ex_cv_min2) (strftime_a (mk_date 2025 9 8)) =
     Some [(''start'', Some ''08:00:00''), (''end'', Some ''09:00:00'')]"
    by (simp add: da ex_cv_min2_def)
  have e: "map_of [(''start'', Some ''08:00:00''), (''end'', Some ''09:00:00'')] ''end'' =
             Some (Some ''09:00:00'')"
    by simp
  have v: "valid_datetime \<lparr>year = 2025, month = 9, day = 8, hour = h, minute = m, second = 0,
                             microsecond = 0\<rparr>" if "h < 24" "m < 60" for h m
    using that by (simp add: valid_datetime_def valid_date_def days_in_month_def is_leap_def)
  have p: "\<forall>f\<in>set ?files. \<exists>dt tz. fromisoformat_T (uploaded_at f) = Inr (dt, tz) \<and>
             valid_datetime dt"
    by (simp add: ex_file_def fromisoformat_T_examples v)
  have c: "combine (mk_date 2025 9 8) (9, 0, 0) =
             \<lparr>year = 2025, month = 9, day = 8, hour = 9, minute = 0, second = 0, microsecond = 0\<rparr>"
    by (simp add: combine_def mk_date_def)
  have us: "total_microseconds \<lparr>year = 2025, month = 9, day = 8, hour = h, minute = m,
                                 second = 0, microsecond = 0\<rparr> =
              739502 * 86400000000 + (int h * 60 + int m) * 60000000" for h m
    by (simp add: total_microseconds_def toordinal_def ymd2ord_def days_before_year_def
          days_before_month_def is_leap_def)
  from late_upload_deadline [OF w e strptime_HMS_nine p, THEN conjunct1]
  have "LateUploadDetector_detect fromisoformat_T ?files ex_cv_min2 (mk_date 2025 9 8) =
       Inr [late_upload_incident ex_cv_min2 (ex_file ''a.csv'' 5 ''2025-09-08T14:05:00+00:00'')
              \<lparr>year = 2025, month = 9, day = 8, hour = 14, minute = 5, second = 0,
                 microsecond = 0\<rparr>
              ''09:00:00''
              \<lparr>year = 2025, month = 9, day = 8, hour = 9, minute = 0, second = 0,
                 microsecond = 0\<rparr>]"
    by (simp add: c us ex_file_def fromisoformat_T_examples)
  with w strptime_HMS_nine show ?thesis by simp
qed

section \<open>Properties of the profile parser\<close>

lemma find_str_None_iff: "find_str s sub = None \<longleftrightarrow> \<not> contains s sub"
  by (induction s) auto

lemma table_search_absent: "\<not> contains content heading \<Longrightarrow> table_search heading content = None"
  by (simp add: table_search_def find_str_None_iff [THEN iffD2])

text \<open>
  When its heading does not occur in the document, each of the four table extractors
  returns the empty mapping; a document with none of the headings parses to a profile with
  four empty mappings.
\<close>

lemma extract_file_stats_absent:
  "\<not> contains content ''File Processing Statistics by Day'' \<Longrightarrow> extract_file_stats content = Inr []"
  by (simp add: extract_file_stats_def table_search_absent)

lemma extract_upload_window_absent:
  "\<not> contains content ''Upload Schedule Patterns by Day'' \<Longrightarrow> extract_upload_window content = Inr []"
  by (simp add: extract_upload_window_def table_search_absent)

lemma extract_entity_stats_absent:
  "\<not> contains content ''Entity Statistics by Day of Week'' \<Longrightarrow> extract_entity_stats content = Inr []"
  by (simp add: extract_entity_stats_def table_search_absent)

lemma extract_empty_file_stats_absent:
  "\<not> contains content ''Day-of-Week Summary'' \<Longrightarrow> extract_empty_file_stats content = Inr []"
  by (simp add: extract_empty_file_stats_def table_search_absent)

lemma parse_no_sections:
  assumes "\<not> contains content ''File Processing Statistics by Day''"
    and "\<not> contains content ''Upload Schedule Patterns by Day''"
    and "\<not> contains content ''Entity Statistics by Day of Week''"
    and "\<not> contains content ''Day-of-Week Summary''"
  shows "parse content =
     Inr \<lparr>cv_source_id = extract_source_id content, expected_files_by_day = [],
          upload_window_by_day = [], filename_patterns = extract_filename_patterns content,
          entity_stats = [], empty_file_stats = []\<rparr>"
  by (simp add: parse_def bind_def Let_def extract_file_stats_absent [OF assms(1)]
        extract_upload_window_absent [OF assms(2)] extract_entity_stats_absent [OF assms(3)]
        extract_empty_file_stats_absent [OF assms(4)])

text \<open>The executable string tests are the prefix and the contiguous-sublist relations.\<close>

lemma startswith_prefix: "startswith s p \<longleftrightarrow> prefix p s"
  by (induction s p rule: startswith.induct) auto

lemma contains_sublist: "contains s sub \<longleftrightarrow> sublist sub s"
  by (induction s) (simp_all add: startswith_prefix sublist_Cons_right)

text \<open>
  A cell that is not a run of Digit characters around at most one dot becomes 0. A cell
  free of the three superscript digits never makes \<open>float\<close> raise, and makes \<open>int\<close>
  raise only beyond 4300 digits.
\<close>

lemma replace_first_dot_split:
  "replace_first_dot c =
     takeWhile (\<lambda>x. x \<noteq> CHR ''.'') c @ drop (Suc (length (takeWhile (\<lambda>x. x \<noteq> CHR ''.'') c))) c"
  by (induction c) auto

lemma coerce_float_total:
  assumes "\<forall>x\<in>set c. x \<notin> set [CHR 0xB2, CHR 0xB3, CHR 0xB9]"
  shows "\<exists>v. coerce_float c = Inr v"
proof (cases "isdigit (replace_first_dot c)")
  case False
  then show ?thesis by (simp add: coerce_float_def)
next
  case True
  let ?whole = "takeWhile (\<lambda>x. x \<noteq> CHR ''.'') c"
  let ?frac = "drop (Suc (length ?whole)) c"
  have sub: "set (replace_first_dot c) \<subseteq> set c"
    unfolding replace_first_dot_split
    using set_takeWhileD [of _ "\<lambda>x. x \<noteq> CHR ''.''" c] set_drop_subset [of "Suc (length ?whole)" c]
    by auto
  from True have ne: "replace_first_dot c \<noteq> []"
    and all: "\<forall>x\<in>set (replace_first_dot c). is_digit x \<or> x \<in> set [CHR 0xB2, CHR 0xB3, CHR 0xB9]"
    by (simp_all add: isdigit_def list_all_iff)
  from all sub assms have "\<forall>x\<in>set (replace_first_dot c). is_digit x" by blast
  then have "list_all is_digit (?whole @ ?frac)"
    unfolding list_all_iff replace_first_dot_split [symmetric] .
  moreover from ne have "?whole @ ?frac \<noteq> []"
    unfolding replace_first_dot_split .
  ultimately show ?thesis
    using True by (simp add: coerce_float_def float_of_def Let_def)
qed

lemma coerce_int_total:
  assumes "\<forall>x\<in>set c. x \<notin> set [CHR 0xB2, CHR 0xB3, CHR 0xB9]"
    and "list_all is_digit c \<longrightarrow> length c \<le> 4300"
  shows "\<exists>v. coerce_int c = Inr v"
  using assms by (auto simp: coerce_int_def int_of_def isdigit_def list_all_iff)

text \<open>
  Every cell is a contiguous piece of the document. So on a document free of the three
  superscript digits and without a run of more than 4300 digits, \<open>_extract_file_stats\<close>
  never raises.
\<close>

lemma sublist_strip: "sublist (strip s) s"
proof -
  have "suffix (dropWhile isspace (rev (dropWhile isspace s))) (rev (dropWhile isspace s))"
    by (rule suffix_dropWhile)
  then have "prefix (strip s) (dropWhile isspace s)"
    by (simp add: strip_def suffix_to_prefix)
  then have "sublist (strip s) (dropWhile isspace s)" by (rule prefix_imp_sublist)
  also have "sublist (dropWhile isspace s) s" by (rule sublist_dropWhile)
  finally show ?thesis .
qed

lemma split_on_pieces:
  "split_on c s \<noteq> [] \<and> prefix (hd (split_on c s)) s \<and> (\<forall>w\<in>set (split_on c s). sublist w s)"
proof (induction s)
  case Nil
  show ?case by simp
next
  case (Cons x xs)
  show ?case
  proof (cases "x = c")
    case True
    with Cons show ?thesis by (auto simp: sublist_Cons_right)
  next
    case False
    from Cons obtain v vs where vs: "split_on c xs = v # vs" by (cases "split_on c xs") auto
    with Cons have v: "prefix v xs" and rest: "\<forall>w\<in>set vs. sublist w xs" by auto
    from v have "sublist (x # v) (x # xs)" by (simp add: sublist_Cons_right)
    with False vs v rest show ?thesis by (auto simp: sublist_Cons_right)
  qed
qed

lemma sublist_split_on: "w \<in> set (split_on c s) \<Longrightarrow> sublist w s"
  using split_on_pieces [of c s] by blast

lemma sublist_cells: "col \<in> set (cells row) \<Longrightarrow> sublist col row"
proof -
  assume "col \<in> set (cells row)"
  then obtain w where w: "w \<in> set (split_on CHR ''|'' row)" and col: "col = strip w"
    by (auto simp: cells_def)
  have "sublist (strip w) w" by (rule sublist_strip)
  also from w have "sublist w row" by (rule sublist_split_on)
  finally show ?thesis by (simp add: col)
qed

lemma sublist_table_search: "table_search heading content = Some t \<Longrightarrow> sublist t content"
proof -
  assume "table_search heading content = Some t"
  then obtain n p where t: "t = take n (drop p content)"
    by (auto simp: table_search_def split: option.splits if_splits)
  have "sublist (take n (drop p content)) (drop p content)" by (rule sublist_take)
  also have "sublist (drop p content) content" by (rule sublist_drop)
  finally show ?thesis by (simp add: t)
qed

lemma file_stats_rows_total:
  assumes "\<forall>row\<in>set data_rows. \<forall>col. sublist col row \<longrightarrow>
             (\<forall>x\<in>set col. x \<notin> set [CHR 0xB2, CHR 0xB3, CHR 0xB9]) \<and>
             (list_all is_digit col \<longrightarrow> length col \<le> 4300)"
  shows "\<exists>d. file_stats_rows data_rows stats = Inr d"
  using assms
proof (induction data_rows arbitrary: stats)
  case Nil
  show ?case by simp
next
  case (Cons row data_rows)
  from Cons.prems have rest: "\<forall>row\<in>set data_rows. \<forall>col. sublist col row \<longrightarrow>
             (\<forall>x\<in>set col. x \<notin> set [CHR 0xB2, CHR 0xB3, CHR 0xB9]) \<and>
             (list_all is_digit col \<longrightarrow> length col \<le> 4300)"
    by simp
  show ?case
  proof (cases "length (cells row) \<ge> 7")
    case False
    with Cons.IH [OF rest] show ?thesis by (simp add: Let_def)
  next
    case True
    have clean: "(\<forall>x\<in>set (cells row ! i). x \<notin> set [CHR 0xB2, CHR 0xB3, CHR 0xB9]) \<and>
                 (list_all is_digit (cells row ! i) \<longrightarrow> length (cells row ! i) \<le> 4300)"
      if "i < 7" for i
    proof -
      from that True have "cells row ! i \<in> set (cells row)" by simp
      then have "sublist (cells row ! i) row" by (rule sublist_cells)
      with Cons.prems [THEN bspec, OF list.set_intros(1)] show ?thesis by blast
    qed
    obtain mean where 1: "coerce_float (cells row ! 1) = Inr mean"
      using coerce_float_total [of "cells row ! 1"] clean [of 1] by auto
    obtain median where 2: "coerce_float (cells row ! 2) = Inr median"
      using coerce_float_total [of "cells row ! 2"] clean [of 2] by auto
    obtain mode where 3: "coerce_float (cells row ! 3) = Inr mode"
      using coerce_float_total [of "cells row ! 3"] clean [of 3] by auto
    obtain std_dev where 4: "coerce_float (cells row ! 4) = Inr std_dev"
      using coerce_float_total [of "cells row ! 4"] clean [of 4] by auto
    obtain mn where 5: "coerce_int (cells row ! 5) = Inr mn"
      using coerce_int_total [of "cells row ! 5"] clean [of 5] by auto
    obtain mx where 6: "coerce_int (cells row ! 6) = Inr mx"
      using coerce_int_total [of "cells row ! 6"] clean [of 6] by auto
    have "file_stats_rows (row # data_rows) stats =
            file_stats_rows data_rows
              (dict_set stats (cells row ! 0)
                 [(''mean'', mean), (''median'', median), (''mode'', mode), (''min'', mn),
                  (''max'', mx), (''std_dev'', std_dev)])"
      by (simp only: file_stats_rows.simps Let_def True if_True 1 2 3 4 5 6 bind_def sum.case)
    with Cons.IH [OF rest] show ?thesis by simp
  qed
qed

lemma extract_file_stats_total:
  assumes clean: "\<forall>x\<in>set content. x \<notin> set [CHR 0xB2, CHR 0xB3, CHR 0xB9]"
    and short: "\<forall>w. sublist w content \<longrightarrow> list_all is_digit w \<longrightarrow> length w \<le> 4300"
  shows "\<exists>d. extract_file_stats content = Inr d"
proof (cases "table_search ''File Processing Statistics by Day'' content")
  case None
  then show ?thesis by (simp add: extract_file_stats_def)
next
  case (Some t)
  let ?rows = "split_on CHR 0x0A (strip t)"
  let ?data = "filter (\<lambda>r. startswith r ''|'' \<and> \<not> contains r ''---'' \<and>
                            \<not> contains r ''Mean Files'') ?rows"
  have "\<forall>row\<in>set ?data. \<forall>col. sublist col row \<longrightarrow>
             (\<forall>x\<in>set col. x \<notin> set [CHR 0xB2, CHR 0xB3, CHR 0xB9]) \<and>
             (list_all is_digit col \<longrightarrow> length col \<le> 4300)"
  proof (intro ballI allI impI)
    fix row col
    assume "row \<in> set ?data" and col: "sublist col row"
    then have "row \<in> set ?rows" by simp
    then have "sublist row (strip t)" by (rule sublist_split_on)
    also have "sublist (strip t) t" by (rule sublist_strip)
    also from Some have "sublist t content" by (rule sublist_table_search)
    finally have "sublist row content" .
    with col have c: "sublist col content" by (rule sublist_order.order.trans)
    from set_mono_sublist [OF c] clean
    have "\<forall>x\<in>set col. x \<notin> set [CHR 0xB2, CHR 0xB3, CHR 0xB9]" by blast
    moreover from short c have "list_all is_digit col \<longrightarrow> length col \<le> 4300" by blast
    ultimately show "(\<forall>x\<in>set col. x \<notin> set [CHR 0xB2, CHR 0xB3, CHR 0xB9]) \<and>
             (list_all is_digit col \<longrightarrow> length col \<le> 4300)" ..
  qed
  from file_stats_rows_total [OF this, of "[]"] show ?thesis
    by (simp only: extract_file_stats_def Let_def Some option.case)
qed

text \<open>
  The round trip of the specification: the row \<open>| Mon | 2.0 | 2.0 | 2.0 | 0.5 | 1 | 3 |\<close>
  of the file-count table.
\<close>

lemma extract_file_stats_round_trip:
  "extract_file_stats ex_doc_file_stats =
     Inr [(''Mon'', [(''mean'', 2), (''median'', 2), (''mode'', 2), (''min'', 1), (''max'', 3),
                     (''std_dev'', 1 / 2)])]"
  by code_simp

text \<open>A cell of 4301 nines passes \<open>isdigit\<close> and exceeds the limit of \<open>int\<close>.\<close>

lemma coerce_int_beyond_limit: "coerce_int (replicate 4301 CHR ''9'') = Inl ValueError"
  by (simp add: coerce_int_def int_of_def isdigit_def is_digit_def list_all_iff)

text \<open>
  An entity cell whose number has two dots makes \<open>float\<close> raise, and a table whose header
  row does not name Monday makes the extractor index an empty list.
\<close>

lemma extract_entity_stats_two_dots: "extract_entity_stats ex_doc_two_dots = Inl ValueError"
  by code_simp

lemma extract_entity_stats_no_header:
  "extract_entity_stats
     (''Entity Statistics by Day of Week'' @ [CHR 0x0A] @ ''| Entity | Mon |'' @ [CHR 0x0A] @
      ''| Visa | Median Files: 1 |'' @ [CHR 0x0A]) = Inl IndexError"
  by code_simp

text \<open>An upload-window cell with two hyphens does not unpack into start and end.\<close>

lemma extract_upload_window_two_hyphens:
  "extract_upload_window
     (''Upload Schedule Patterns by Day'' @ [CHR 0x0A] @
      ''| Mon | 8 | 1 | 8 | 9 | 08:00-09:00-10:00 |'' @ [CHR 0x0A]) = Inl ValueError"
  by code_simp

text \<open>
  The last cell of the Monday row of the example document is the superscript two: it
  passes \<open>isdigit\<close>, and \<open>int\<close> refuses it.
\<close>

lemma extract_file_stats_superscript: "extract_file_stats ex_doc_superscript = Inl ValueError"
  by code_simp

text \<open>
  C8. The parser is to turn a non-numeric table cell into 0 and never to raise on the text
  of a document it could read. On the example document, whose file-count table has a cell
  holding the superscript two, \<open>parse\<close> raises \<open>ValueError\<close>.
\<close>

theorem parse_superscript_raises: "parse ex_doc_superscript = Inl ValueError"
  by (simp add: parse_def bind_def Let_def extract_file_stats_superscript)

end
